theory Spec2Isabelle
  imports Complex_Main "HOL-Library.AList"
begin

section \<open>Python values\<close>

text \<open>
  The pipeline (\<^verbatim>\<open>fitbit_to_influx.py\<close>) works on whatever \<^verbatim>\<open>response.json()\<close> returns:
  \<^verbatim>\<open>None\<close>, booleans, integers, floats, strings, lists and dicts. A dict is kept as the
  list of its items in insertion order (its keys are distinct). A float is represented by
  the rational number it denotes, so the comparisons of the source (\<^verbatim>\<open>> 100\<close>,
  \<^verbatim>\<open>< 20\<close>, \<^verbatim>\<open>!= 0\<close>) are exact; the rounding of a quotient and the values
  \<^verbatim>\<open>NaN\<close> and \<^verbatim>\<open>Infinity\<close> are outside the model. Strings are lists of 8-bit
  characters.
\<close>

datatype json =
    JNull
  | JBool bool
  | JInt int
  | JFloat rat
  | JStr string
  | JArr "json list"
  | JObj "(string \<times> json) list"

datatype exn =
  KeyError | TypeError | ValueError | IndexError | AttributeError | ZeroDivisionError | OtherError

text \<open>A computation that may raise: \<open>Inl\<close> is the exception, \<open>Inr\<close> the value.\<close>

definition bnd :: "exn + 'a \<Rightarrow> ('a \<Rightarrow> exn + 'b) \<Rightarrow> exn + 'b" where
  "bnd m f = (case m of Inl e \<Rightarrow> Inl e | Inr v \<Rightarrow> f v)"

text \<open>Truth value of an object, as tested by \<^verbatim>\<open>if x\<close> and \<^verbatim>\<open>x and y\<close>.\<close>

fun truthy :: "json \<Rightarrow> bool" where
  "truthy JNull = False"
| "truthy (JBool b) = b"
| "truthy (JInt i) = (i \<noteq> 0)"
| "truthy (JFloat r) = (r \<noteq> 0)"
| "truthy (JStr s) = (s \<noteq> [])"
| "truthy (JArr xs) = (xs \<noteq> [])"
| "truthy (JObj kvs) = (kvs \<noteq> [])"

fun starts_with :: "string \<Rightarrow> string \<Rightarrow> bool" where
  "starts_with s [] = True"
| "starts_with [] (p # ps) = False"
| "starts_with (c # cs) (p # ps) = (c = p \<and> starts_with cs ps)"

fun contains_str :: "string \<Rightarrow> string \<Rightarrow> bool" where
  "contains_str needle [] = (needle = [])"
| "contains_str needle (c # cs) = (starts_with (c # cs) needle \<or> contains_str needle cs)"

text \<open>
  \<^verbatim>\<open>'k' in x\<close>: key membership for a dict, element membership for a list, substring test
  for a string, \<^verbatim>\<open>TypeError\<close> for anything else.
\<close>

fun py_in :: "string \<Rightarrow> json \<Rightarrow> exn + bool" where
  "py_in k (JObj kvs) = Inr (k \<in> set (map fst kvs))"
| "py_in k (JArr xs) = Inr (JStr k \<in> set xs)"
| "py_in k (JStr s) = Inr (contains_str k s)"
| "py_in k _ = Inl TypeError"

text \<open>\<^verbatim>\<open>x['k']\<close>: only a dict can be indexed by a string.\<close>

fun getitem_key :: "json \<Rightarrow> string \<Rightarrow> exn + json" where
  "getitem_key (JObj kvs) k = (case map_of kvs k of None \<Rightarrow> Inl KeyError | Some v \<Rightarrow> Inr v)"
| "getitem_key _ k = Inl TypeError"

text \<open>\<^verbatim>\<open>x[0]\<close>. A dict decoded from JSON has string keys only, so \<^verbatim>\<open>d[0]\<close> is a \<^verbatim>\<open>KeyError\<close>.\<close>

fun getitem0 :: "json \<Rightarrow> exn + json" where
  "getitem0 (JArr []) = Inl IndexError"
| "getitem0 (JArr (x # xs)) = Inr x"
| "getitem0 (JStr []) = Inl IndexError"
| "getitem0 (JStr (c # cs)) = Inr (JStr [c])"
| "getitem0 (JObj kvs) = Inl KeyError"
| "getitem0 _ = Inl TypeError"

text \<open>\<^verbatim>\<open>x.get('k', d)\<close>: a method of dicts only.\<close>

fun py_get :: "json \<Rightarrow> string \<Rightarrow> json \<Rightarrow> exn + json" where
  "py_get (JObj kvs) k d = Inr (case map_of kvs k of None \<Rightarrow> d | Some v \<Rightarrow> v)"
| "py_get _ k d = Inl AttributeError"

text \<open>\<^verbatim>\<open>for r in x\<close>: the elements of a list, the keys of a dict, the characters of a string.\<close>

fun py_iter :: "json \<Rightarrow> exn + json list" where
  "py_iter (JArr xs) = Inr xs"
| "py_iter (JObj kvs) = Inr (map (\<lambda>kv. JStr (fst kv)) kvs)"
| "py_iter (JStr s) = Inr (map (\<lambda>c. JStr [c]) s)"
| "py_iter _ = Inl TypeError"

text \<open>Numbers: \<^verbatim>\<open>bool\<close> is a subclass of \<^verbatim>\<open>int\<close>.\<close>

fun num_of :: "json \<Rightarrow> rat option" where
  "num_of (JBool b) = Some (if b then 1 else 0)"
| "num_of (JInt i) = Some (of_int i)"
| "num_of (JFloat r) = Some r"
| "num_of _ = None"

definition py_gt :: "json \<Rightarrow> rat \<Rightarrow> exn + bool" where
  "py_gt x c = (case num_of x of None \<Rightarrow> Inl TypeError | Some v \<Rightarrow> Inr (c < v))"

definition py_lt :: "json \<Rightarrow> rat \<Rightarrow> exn + bool" where
  "py_lt x c = (case num_of x of None \<Rightarrow> Inl TypeError | Some v \<Rightarrow> Inr (v < c))"

text \<open>\<^verbatim>\<open>x != 0\<close> never raises: an object that is not a number differs from 0.\<close>

definition py_ne0 :: "json \<Rightarrow> bool" where
  "py_ne0 x = (case num_of x of None \<Rightarrow> True | Some v \<Rightarrow> v \<noteq> 0)"

text \<open>
  \<^verbatim>\<open>a / b\<close>: true division, the result a float (here the exact quotient; the overflow
  of a quotient of very large integers is outside the model).
\<close>

definition py_truediv :: "json \<Rightarrow> json \<Rightarrow> exn + json" where
  "py_truediv a b =
     (case num_of a of
        None \<Rightarrow> Inl TypeError
      | Some x \<Rightarrow>
          (case num_of b of
             None \<Rightarrow> Inl TypeError
           | Some y \<Rightarrow> if y = 0 then Inl ZeroDivisionError else Inr (JFloat (x / y))))"

section \<open>Configuration\<close>

type_synonym environ = "string \<Rightarrow> string option"

definition getenv :: "environ \<Rightarrow> string \<Rightarrow> string \<Rightarrow> string" where
  "getenv env k d = (case env k of None \<Rightarrow> d | Some v \<Rightarrow> v)"

text \<open>\<^verbatim>\<open>str.lower\<close> on the letters A to Z.\<close>

definition lower_char :: "char \<Rightarrow> char" where
  "lower_char c =
     (if 65 \<le> (of_char c :: nat) \<and> (of_char c :: nat) \<le> 90
      then char_of ((of_char c :: nat) + 32) else c)"

definition py_lower :: "string \<Rightarrow> string" where
  "py_lower s = map lower_char s"

definition health_flag :: "environ \<Rightarrow> string \<Rightarrow> bool" where
  "health_flag env var = (py_lower (getenv env var ''true'') = ''true'')"

definition HEALTH_CONDITIONS :: "environ \<Rightarrow> (string \<times> bool) list" where
  "HEALTH_CONDITIONS env =
     [(''long_covid'', health_flag env ''HEALTH_LONG_COVID''),
      (''pots'', health_flag env ''HEALTH_POTS''),
      (''small_fiber_neuropathy'', health_flag env ''HEALTH_SMALL_FIBER_NEUROPATHY''),
      (''pem'', health_flag env ''HEALTH_PEM''),
      (''dysautonomia'', health_flag env ''HEALTH_DYSAUTONOMIA'')]"

section \<open>Points\<close>

record datetime =
  dt_year :: nat
  dt_month :: nat
  dt_day :: nat
  dt_hour :: nat
  dt_minute :: nat
  dt_second :: nat

text \<open>
  A \<^verbatim>\<open>Point\<close> of the InfluxDB client: \<^verbatim>\<open>field\<close> and \<^verbatim>\<open>tag\<close> store into dicts
  (a repeated name overwrites in place, a new name is appended), \<^verbatim>\<open>time\<close> sets the
  timestamp.
\<close>

record point =
  pmeasurement :: string
  pfields :: "(string \<times> json) list"
  ptags :: "(string \<times> string) list"
  ptime :: "datetime option"

definition Point :: "string \<Rightarrow> point" where
  "Point m = \<lparr>pmeasurement = m, pfields = [], ptags = [], ptime = None\<rparr>"

definition field :: "string \<Rightarrow> json \<Rightarrow> point \<Rightarrow> point" where
  "field k v p = p\<lparr>pfields := AList.update k v (pfields p)\<rparr>"

definition tag :: "string \<Rightarrow> string \<Rightarrow> point \<Rightarrow> point" where
  "tag k v p = p\<lparr>ptags := AList.update k v (ptags p)\<rparr>"

definition time :: "datetime \<Rightarrow> point \<Rightarrow> point" where
  "time t p = p\<lparr>ptime := Some t\<rparr>"

text \<open>
  The loop \<^verbatim>\<open>for condition, enabled in HEALTH_CONDITIONS.items(): if enabled: point =
  point.tag(condition, 'true')\<close>.
\<close>

fun add_health_tags :: "(string \<times> bool) list \<Rightarrow> point \<Rightarrow> point" where
  "add_health_tags [] p = p"
| "add_health_tags ((condition, enabled) # rest) p =
     add_health_tags rest (if enabled then tag condition ''true'' p else p)"

section \<open>Parsing dates: \<^verbatim>\<open>datetime.strptime\<close>\<close>

text \<open>
  \<^verbatim>\<open>strptime\<close> compiles the format into a regular expression, takes the first match
  of the regular expression engine at the start of the string (alternatives are tried in
  the order written, \<^verbatim>\<open>\s+\<close> is greedy), raises \<^verbatim>\<open>ValueError\<close> when there is no
  match or when text remains after the match, and builds the \<^verbatim>\<open>datetime\<close>, which
  raises \<^verbatim>\<open>ValueError\<close> for a date that does not exist. A matcher returns the list of
  its matches in the engine's order of preference, each with the rest of the string.
\<close>

definition is_digit :: "char \<Rightarrow> bool" where
  "is_digit c = (48 \<le> (of_char c :: nat) \<and> (of_char c :: nat) \<le> 57)"

definition digit_val :: "char \<Rightarrow> nat" where
  "digit_val c = (of_char c :: nat) - 48"

definition digit_in :: "nat \<Rightarrow> nat \<Rightarrow> char \<Rightarrow> bool" where
  "digit_in lo hi c = (is_digit c \<and> lo \<le> digit_val c \<and> digit_val c \<le> hi)"

definition py_isspace :: "char \<Rightarrow> bool" where
  "py_isspace c = ((of_char c :: nat) \<in> {9, 10, 11, 12, 13, 28, 29, 30, 31, 32, 133, 160})"

definition rx_then :: "('a \<times> string) list \<Rightarrow> ('a \<Rightarrow> string \<Rightarrow> ('b \<times> string) list) \<Rightarrow> ('b \<times> string) list" where
  "rx_then ms f = concat (map (\<lambda>m. f (fst m) (snd m)) ms)"

definition rx_lit :: "char \<Rightarrow> string \<Rightarrow> (unit \<times> string) list" where
  "rx_lit c s = (case s of [] \<Rightarrow> [] | x # rest \<Rightarrow> if x = c then [((), rest)] else [])"

definition rx_one :: "nat \<times> nat \<Rightarrow> string \<Rightarrow> (nat \<times> string) list" where
  "rx_one r s =
     (case s of
        [] \<Rightarrow> []
      | a # rest \<Rightarrow> if digit_in (fst r) (snd r) a then [(digit_val a, rest)] else [])"

definition rx_two :: "nat \<times> nat \<Rightarrow> nat \<times> nat \<Rightarrow> string \<Rightarrow> (nat \<times> string) list" where
  "rx_two r1 r2 s =
     (case s of
        a # b # rest \<Rightarrow>
          if digit_in (fst r1) (snd r1) a \<and> digit_in (fst r2) (snd r2) b
          then [(10 * digit_val a + digit_val b, rest)] else []
      | _ \<Rightarrow> [])"

text \<open>\<^verbatim>\<open>%Y\<close> is \<^verbatim>\<open>\d\d\d\d\<close>.\<close>

definition rx_Y :: "string \<Rightarrow> (nat \<times> string) list" where
  "rx_Y s =
     (case s of
        a # b # c # d # rest \<Rightarrow>
          if is_digit a \<and> is_digit b \<and> is_digit c \<and> is_digit d
          then [(1000 * digit_val a + 100 * digit_val b + 10 * digit_val c + digit_val d, rest)]
          else []
      | _ \<Rightarrow> [])"

text \<open>\<^verbatim>\<open>%m\<close> is \<^verbatim>\<open>1[0-2]|0[1-9]|[1-9]\<close>.\<close>

definition rx_m :: "string \<Rightarrow> (nat \<times> string) list" where
  "rx_m s = rx_two (1, 1) (0, 2) s @ rx_two (0, 0) (1, 9) s @ rx_one (1, 9) s"

text \<open>\<^verbatim>\<open>%d\<close> is \<^verbatim>\<open>3[0-1]|[1-2]\d|0[1-9]|[1-9]| [1-9]\<close>.\<close>

definition rx_d :: "string \<Rightarrow> (nat \<times> string) list" where
  "rx_d s =
     rx_two (3, 3) (0, 1) s @ rx_two (1, 2) (0, 9) s @ rx_two (0, 0) (1, 9) s @ rx_one (1, 9) s
     @ rx_then (rx_lit CHR '' '' s) (\<lambda>u rest. rx_one (1, 9) rest)"

text \<open>\<^verbatim>\<open>%H\<close> is \<^verbatim>\<open>2[0-3]|[0-1]\d|\d\<close>, \<^verbatim>\<open>%M\<close> is \<^verbatim>\<open>[0-5]\d|\d\<close>, \<^verbatim>\<open>%S\<close> is
  \<^verbatim>\<open>6[0-1]|[0-5]\d|\d\<close>.\<close>

definition rx_H :: "string \<Rightarrow> (nat \<times> string) list" where
  "rx_H s = rx_two (2, 2) (0, 3) s @ rx_two (0, 1) (0, 9) s @ rx_one (0, 9) s"

definition rx_M :: "string \<Rightarrow> (nat \<times> string) list" where
  "rx_M s = rx_two (0, 5) (0, 9) s @ rx_one (0, 9) s"

definition rx_S :: "string \<Rightarrow> (nat \<times> string) list" where
  "rx_S s = rx_two (6, 6) (0, 1) s @ rx_two (0, 5) (0, 9) s @ rx_one (0, 9) s"

text \<open>A blank in the format is \<^verbatim>\<open>\s+\<close>: the longest run of white space first.\<close>

definition rx_spaces :: "string \<Rightarrow> (unit \<times> string) list" where
  "rx_spaces s = map (\<lambda>k. ((), drop k s)) (rev [1 ..< Suc (length (takeWhile py_isspace s))])"

definition leap_year :: "nat \<Rightarrow> bool" where
  "leap_year y = (y mod 4 = 0 \<and> (y mod 100 \<noteq> 0 \<or> y mod 400 = 0))"

definition days_in_month :: "nat \<Rightarrow> nat \<Rightarrow> nat" where
  "days_in_month y m =
     (if m = 2 then (if leap_year y then 29 else 28)
      else if m = 4 \<or> m = 6 \<or> m = 9 \<or> m = 11 then 30 else 31)"

text \<open>The constructor \<^verbatim>\<open>datetime(year, month, day, hour, minute, second)\<close>.\<close>

definition mk_datetime :: "nat \<Rightarrow> nat \<Rightarrow> nat \<Rightarrow> nat \<Rightarrow> nat \<Rightarrow> nat \<Rightarrow> exn + datetime" where
  "mk_datetime y m d h mi sec =
     (if 1 \<le> y \<and> y \<le> 9999 \<and> 1 \<le> m \<and> m \<le> 12 \<and> 1 \<le> d \<and> d \<le> days_in_month y m
         \<and> h \<le> 23 \<and> mi \<le> 59 \<and> sec \<le> 59
      then Inr \<lparr>dt_year = y, dt_month = m, dt_day = d, dt_hour = h, dt_minute = mi, dt_second = sec\<rparr>
      else Inl ValueError)"

definition rx_date :: "string \<Rightarrow> ((nat \<times> nat \<times> nat) \<times> string) list" where
  "rx_date s =
     rx_then (rx_Y s) (\<lambda>y r1.
     rx_then (rx_lit CHR ''-'' r1) (\<lambda>u r2.
     rx_then (rx_m r2) (\<lambda>m r3.
     rx_then (rx_lit CHR ''-'' r3) (\<lambda>u r4.
     rx_then (rx_d r4) (\<lambda>d r5. [((y, m, d), r5)])))))"

text \<open>\<^verbatim>\<open>datetime.strptime(s, '%Y-%m-%d')\<close> on a string.\<close>

definition strptime_date :: "string \<Rightarrow> exn + datetime" where
  "strptime_date s =
     (case rx_date s of
        [] \<Rightarrow> Inl ValueError
      | ((y, m, d), rest) # others \<Rightarrow>
          if rest \<noteq> [] then Inl ValueError else mk_datetime y m d 0 0 0)"

text \<open>\<^verbatim>\<open>datetime.strptime(s, '%Y-%m-%d %H:%M:%S')\<close> on a string.\<close>

definition strptime_datetime :: "string \<Rightarrow> exn + datetime" where
  "strptime_datetime s =
     (case
        rx_then (rx_date s) (\<lambda>ymd r1.
        rx_then (rx_spaces r1) (\<lambda>u r2.
        rx_then (rx_H r2) (\<lambda>h r3.
        rx_then (rx_lit CHR '':'' r3) (\<lambda>u r4.
        rx_then (rx_M r4) (\<lambda>mi r5.
        rx_then (rx_lit CHR '':'' r5) (\<lambda>u r6.
        rx_then (rx_S r6) (\<lambda>sec r7. [((ymd, h, mi, sec), r7)])))))))
      of
        [] \<Rightarrow> Inl ValueError
      | (((y, m, d), h, mi, sec), rest) # others \<Rightarrow>
          if rest \<noteq> [] then Inl ValueError else mk_datetime y m d h mi sec)"

text \<open>The first argument of \<^verbatim>\<open>strptime\<close> must be a \<^verbatim>\<open>str\<close>.\<close>

fun strptime_date_obj :: "json \<Rightarrow> exn + datetime" where
  "strptime_date_obj (JStr s) = strptime_date s"
| "strptime_date_obj _ = Inl TypeError"

section \<open>Normalizing daily summaries: \<^verbatim>\<open>process_daily_summary\<close>\<close>

text \<open>
  The body of the \<^verbatim>\<open>try\<close> block builds the list \<^verbatim>\<open>points\<close>; an exception leaves the
  block, is logged by the handler, and the function returns the list as it stands. The
  model of the block returns the list together with the exception that was caught, if
  any.
\<close>

type_synonym block_result = "point list \<times> exn option"

text \<open>
  A \<^verbatim>\<open>for\<close> loop over records whose body raises, skips the record, or appends one
  point.
\<close>

fun for_records :: "(json \<Rightarrow> exn + point option) \<Rightarrow> json list \<Rightarrow> point list \<Rightarrow> block_result" where
  "for_records body [] points = (points, None)"
| "for_records body (r # rs) points =
     (case body r of
        Inl e \<Rightarrow> (points, Some e)
      | Inr None \<Rightarrow> for_records body rs points
      | Inr (Some p) \<Rightarrow> for_records body rs (points @ [p]))"

text \<open>The test \<^verbatim>\<open>'k' in data and data['k']\<close>.\<close>

definition has_truthy :: "string \<Rightarrow> json \<Rightarrow> exn + bool" where
  "has_truthy k data =
     bnd (py_in k data) (\<lambda>present.
       if present then bnd (getitem_key data k) (\<lambda>v. Inr (truthy v)) else Inr False)"

text \<open>\<^verbatim>\<open>if 'k' in data and data['k']: for record in data['k']: body\<close>.\<close>

definition records_under :: "string \<Rightarrow> json \<Rightarrow> (json \<Rightarrow> exn + point option) \<Rightarrow> block_result" where
  "records_under k data body =
     (case has_truthy k data of
        Inl e \<Rightarrow> ([], Some e)
      | Inr False \<Rightarrow> ([], None)
      | Inr True \<Rightarrow>
          (case bnd (getitem_key data k) py_iter of
             Inl e \<Rightarrow> ([], Some e)
           | Inr records \<Rightarrow> for_records body records []))"

text \<open>The branch \<^verbatim>\<open>metric == 'activities/heart'\<close>.\<close>

definition heart_point :: "(string \<times> bool) list \<Rightarrow> string \<Rightarrow> datetime \<Rightarrow> json \<Rightarrow> exn + point option" where
  "heart_point hc measurement timestamp data =
     bnd (getitem_key data ''activities-heart'') (\<lambda>records.
     bnd (getitem0 records) (\<lambda>first.
     bnd (getitem_key first ''value'') (\<lambda>heart_data.
     bnd (py_in ''restingHeartRate'' heart_data) (\<lambda>present.
       if present then
         bnd (getitem_key heart_data ''restingHeartRate'') (\<lambda>rhr.
           Inr (Some (add_health_tags hc
             (time timestamp (field ''resting_heart_rate'' rhr (Point measurement))))))
       else Inr None))))"

definition heart_rule :: "(string \<times> bool) list \<Rightarrow> string \<Rightarrow> datetime \<Rightarrow> json \<Rightarrow> block_result" where
  "heart_rule hc measurement timestamp data =
     (case has_truthy ''activities-heart'' data of
        Inl e \<Rightarrow> ([], Some e)
      | Inr False \<Rightarrow> ([], None)
      | Inr True \<Rightarrow>
          (case heart_point hc measurement timestamp data of
             Inl e \<Rightarrow> ([], Some e)
           | Inr None \<Rightarrow> ([], None)
           | Inr (Some p) \<Rightarrow> ([p], None)))"

text \<open>The body of the loop of the branch \<^verbatim>\<open>metric == 'sleep'\<close>.\<close>

definition sleep_point :: "(string \<times> bool) list \<Rightarrow> string \<Rightarrow> json \<Rightarrow> exn + point option" where
  "sleep_point hc measurement sleep_record =
     bnd (py_get sleep_record ''isMainSleep'' (JBool True)) (\<lambda>is_main.
       if truthy is_main then
         bnd (getitem_key sleep_record ''dateOfSleep'') (\<lambda>date_of_sleep.
         bnd (strptime_date_obj date_of_sleep) (\<lambda>sleep_time.
         bnd (py_get sleep_record ''efficiency'' (JInt 0)) (\<lambda>efficiency.
         bnd (py_get sleep_record ''minutesAsleep'' (JInt 0)) (\<lambda>minutes_asleep.
         bnd (py_get sleep_record ''minutesAwake'' (JInt 0)) (\<lambda>minutes_awake.
         bnd (py_get sleep_record ''timeInBed'' (JInt 0)) (\<lambda>time_in_bed.
           Inr (Some (add_health_tags hc
             (time sleep_time
               (field ''time_in_bed'' time_in_bed
               (field ''minutes_awake'' minutes_awake
               (field ''minutes_asleep'' minutes_asleep
               (field ''efficiency'' efficiency (Point measurement))))))))))))))
       else Inr None)"

text \<open>The body of the loop of the branch \<^verbatim>\<open>metric == 'hrv'\<close>.\<close>

definition hrv_point :: "(string \<times> bool) list \<Rightarrow> string \<Rightarrow> json \<Rightarrow> exn + point option" where
  "hrv_point hc measurement hrv_record =
     bnd (has_truthy ''value'' hrv_record) (\<lambda>has_value.
       if has_value then
         bnd (getitem_key hrv_record ''dateTime'') (\<lambda>date_time.
         bnd (strptime_date_obj date_time) (\<lambda>hrv_time.
         bnd (getitem_key hrv_record ''value'') (\<lambda>val.
         bnd (py_get val ''lf'' (JInt 0)) (\<lambda>lf.
         bnd (py_get val ''hf'' (JInt 1)) (\<lambda>hf.
         bnd (if py_ne0 hf then py_truediv lf hf else Inr (JInt 0)) (\<lambda>lf_hf_ratio.
         bnd (py_get val ''dailyRmssd'' (JInt 0)) (\<lambda>daily_rmssd.
         bnd (py_get val ''deepRmssd'' (JInt 0)) (\<lambda>deep_rmssd.
           Inr (Some (add_health_tags hc
             (time hrv_time
               (field ''lf_hf_ratio'' lf_hf_ratio
               (field ''hf'' hf
               (field ''lf'' lf
               (field ''deep_rmssd'' deep_rmssd
               (field ''daily_rmssd'' daily_rmssd (Point measurement)))))))))))))))))
       else Inr None)"

text \<open>The body of the loop of the branch \<^verbatim>\<open>metric == 'spo2'\<close>.\<close>

definition spo2_point :: "string \<Rightarrow> json \<Rightarrow> exn + point option" where
  "spo2_point measurement spo2_record =
     bnd (py_in ''value'' spo2_record) (\<lambda>present.
       if present then
         bnd (getitem_key spo2_record ''dateTime'') (\<lambda>date_time.
         bnd (strptime_date_obj date_time) (\<lambda>spo2_time.
         bnd (getitem_key spo2_record ''value'') (\<lambda>val.
         bnd (py_get val ''avg'' (JInt 0)) (\<lambda>avg.
         bnd (py_get val ''min'' (JInt 0)) (\<lambda>mn.
         bnd (py_get val ''max'' (JInt 0)) (\<lambda>mx.
           Inr (Some (time spo2_time
               (field ''max'' mx (field ''min'' mn (field ''value'' avg (Point measurement))))))))))))
       else Inr None)"

text \<open>The body of the loop of the generic handler.\<close>

definition generic_point :: "string \<Rightarrow> json \<Rightarrow> exn + point option" where
  "generic_point measurement rec =
     bnd (py_in ''dateTime'' rec) (\<lambda>has_date.
     bnd (if has_date then py_in ''value'' rec else Inr False) (\<lambda>has_both.
       if has_both then
         bnd (getitem_key rec ''dateTime'') (\<lambda>date_time.
         bnd (strptime_date_obj date_time) (\<lambda>record_time.
         bnd (getitem_key rec ''value'') (\<lambda>v.
           Inr (Some (time record_time (field ''value'' v (Point measurement)))))))
       else Inr None))"

text \<open>\<^verbatim>\<open>metric.split('/')[-1]\<close> and \<^verbatim>\<open>metric.replace('/', '_')\<close>.\<close>

definition last_segment :: "string \<Rightarrow> string" where
  "last_segment metric = rev (takeWhile (\<lambda>c. c \<noteq> CHR ''/'') (rev metric))"

definition measurement_name :: "string \<Rightarrow> string" where
  "measurement_name metric = map (\<lambda>c. if c = CHR ''/'' then CHR ''_'' else c) metric"

text \<open>The \<^verbatim>\<open>try\<close> block of \<^verbatim>\<open>process_daily_summary\<close>.\<close>

definition daily_block :: "(string \<times> bool) list \<Rightarrow> string \<Rightarrow> datetime \<Rightarrow> json \<Rightarrow> block_result" where
  "daily_block hc metric timestamp data =
     (let measurement = measurement_name metric in
      if metric = ''activities/heart'' then heart_rule hc measurement timestamp data
      else if metric = ''sleep'' then records_under ''sleep'' data (sleep_point hc measurement)
      else if metric = ''hrv'' then records_under ''hrv'' data (hrv_point hc measurement)
      else if metric = ''spo2'' then records_under ''spo2'' data (spo2_point measurement)
      else records_under (last_segment metric) data (generic_point measurement))"

text \<open>
  \<^verbatim>\<open>process_daily_summary\<close> from the fetched \<^verbatim>\<open>data\<close> on: nothing for no data, the
  date of the run parsed outside the \<^verbatim>\<open>try\<close> block (its \<^verbatim>\<open>ValueError\<close> leaves the
  function), then the block.
\<close>

definition daily_summary_points ::
  "(string \<times> bool) list \<Rightarrow> string \<Rightarrow> string \<Rightarrow> json option \<Rightarrow> exn + block_result" where
  "daily_summary_points hc metric date data =
     (case data of
        None \<Rightarrow> Inr ([], None)
      | Some d \<Rightarrow>
          if \<not> truthy d then Inr ([], None)
          else bnd (strptime_date date) (\<lambda>timestamp. Inr (daily_block hc metric timestamp d)))"

section \<open>Normalizing intraday data: \<^verbatim>\<open>process_intraday_data\<close>\<close>

text \<open>The first key of \<^verbatim>\<open>data.keys()\<close> whose lower-case form contains \<^verbatim>\<open>intraday\<close>.\<close>

fun find_intraday_key :: "json list \<Rightarrow> string option" where
  "find_intraday_key [] = None"
| "find_intraday_key (JStr k # ks) =
     (if contains_str ''intraday'' (py_lower k) then Some k else find_intraday_key ks)"
| "find_intraday_key (other # ks) = find_intraday_key ks"

fun data_keys :: "json \<Rightarrow> exn + json list" where
  "data_keys (JObj kvs) = Inr (map (\<lambda>kv. JStr (fst kv)) kvs)"
| "data_keys _ = Inl AttributeError"

text \<open>\<^verbatim>\<open>len(dataset)\<close> raises \<^verbatim>\<open>TypeError\<close> for an object without a length.\<close>

fun has_len :: "json \<Rightarrow> bool" where
  "has_len (JArr xs) = True"
| "has_len (JObj kvs) = True"
| "has_len (JStr s) = True"
| "has_len _ = False"

text \<open>
  The body of the loop over the dataset. The timestamp is parsed from
  \<^verbatim>\<open>f"{date} {time_str}"\<close>. When \<^verbatim>\<open>entry['time']\<close> is not a string, the formatted
  text ends in a blank followed by the text of a number, of \<^verbatim>\<open>None\<close>, of a boolean,
  of a list or of a dict; none of these ends in a colon and one or two digits, as a
  full match of the format must, so \<^verbatim>\<open>strptime\<close> raises \<^verbatim>\<open>ValueError\<close>.
\<close>

fun intraday_timestamp :: "string \<Rightarrow> json \<Rightarrow> exn + datetime" where
  "intraday_timestamp date (JStr time_str) = strptime_datetime (date @ '' '' @ time_str)"
| "intraday_timestamp date _ = Inl ValueError"

definition intraday_point :: "(string \<times> bool) list \<Rightarrow> string \<Rightarrow> string \<Rightarrow> json \<Rightarrow> exn + point option" where
  "intraday_point hc metric date entry =
     bnd (py_in ''time'' entry) (\<lambda>has_time.
     bnd (if has_time then py_in ''value'' entry else Inr False) (\<lambda>has_both.
       if has_both then
         bnd (getitem_key entry ''time'') (\<lambda>time_str.
         bnd (intraday_timestamp date time_str) (\<lambda>timestamp.
         bnd (getitem_key entry ''value'') (\<lambda>v.
           let p = time timestamp (field ''value'' v (Point (measurement_name metric @ ''_intraday'')))
           in Inr (Some (if metric = ''activities/heart'' \<or> metric = ''hrv''
                         then add_health_tags hc p else p)))))
       else Inr None))"

text \<open>The \<^verbatim>\<open>try\<close> block of \<^verbatim>\<open>process_intraday_data\<close>.\<close>

definition intraday_block :: "(string \<times> bool) list \<Rightarrow> string \<Rightarrow> string \<Rightarrow> json \<Rightarrow> block_result" where
  "intraday_block hc metric date data =
     (case data_keys data of
        Inl e \<Rightarrow> ([], Some e)
      | Inr keys \<Rightarrow>
          (case find_intraday_key keys of
             None \<Rightarrow> ([], None)
           | Some intraday_key \<Rightarrow>
               (case bnd (getitem_key data intraday_key) (\<lambda>inner.
                     bnd (py_in ''dataset'' inner) (\<lambda>present.
                       if present then bnd (getitem_key inner ''dataset'') (\<lambda>ds. Inr (Some ds))
                       else Inr None)) of
                  Inl e \<Rightarrow> ([], Some e)
                | Inr None \<Rightarrow> ([], None)
                | Inr (Some dataset) \<Rightarrow>
                    if \<not> has_len dataset then ([], Some TypeError)
                    else (case py_iter dataset of
                            Inl e \<Rightarrow> ([], Some e)
                          | Inr entries \<Rightarrow> for_records (intraday_point hc metric date) entries []))))"

definition intraday_data_points ::
  "(string \<times> bool) list \<Rightarrow> string \<Rightarrow> string \<Rightarrow> json option \<Rightarrow> block_result" where
  "intraday_data_points hc metric date data =
     (case data of
        None \<Rightarrow> ([], None)
      | Some d \<Rightarrow> if \<not> truthy d then ([], None) else intraday_block hc metric date d)"

section \<open>The API client: \<^verbatim>\<open>FitbitAPI\<close>\<close>

text \<open>
  The network is a script: the outcomes of the successive calls of \<^verbatim>\<open>requests.get\<close>
  and of \<^verbatim>\<open>requests.post\<close>, in the order of the calls. An outcome is a response (its
  status code, its \<^verbatim>\<open>Retry-After\<close> header if present, its body decoded as JSON if it
  can be) or a \<^verbatim>\<open>RequestException\<close> raised by the call. Every run of the program
  against a server consumes some script; a call made when the script is used up has no
  modelled outcome, and the result \<open>Unscripted\<close> says so: it is the model's way of not
  returning, and it is never caught by an exception handler. The number of nested calls
  that the interpreter allows is not modelled.
\<close>

datatype http_outcome =
    Response int "string option" "json option"
  | RequestException

datatype event =
    Get string json
  | Post json string string
  | Sleep rat

datatype 'a res = Unscripted | Raised exn | Ret 'a

record api =
  client_id :: string
  client_secret :: string
  access_token :: json
  refresh_token :: json
  clock_date :: string
  get_script :: "http_outcome list"
  post_script :: "http_outcome list"
  trace :: "event list"

text \<open>
  \<^verbatim>\<open>requests.get(url, headers)\<close> with the bearer token of \<^verbatim>\<open>headers\<close>, and
  \<^verbatim>\<open>requests.post\<close> to the token endpoint, with the refresh token in the form and the
  client id and secret in the Basic authorization header.
\<close>

definition requests_get :: "api \<Rightarrow> string \<Rightarrow> json \<Rightarrow> http_outcome option \<times> api" where
  "requests_get a url token =
     (case get_script a of
        [] \<Rightarrow> (None, a)
      | out # rest \<Rightarrow> (Some out, a\<lparr>get_script := rest, trace := trace a @ [Get url token]\<rparr>))"

definition requests_post :: "api \<Rightarrow> http_outcome option \<times> api" where
  "requests_post a =
     (case post_script a of
        [] \<Rightarrow> (None, a)
      | out # rest \<Rightarrow>
          (Some out, a\<lparr>post_script := rest,
                        trace := trace a @ [Post (refresh_token a) (client_id a) (client_secret a)]\<rparr>))"

text \<open>
  \<^verbatim>\<open>refresh_access_token\<close>. Every exception of the body is caught and gives
  \<^verbatim>\<open>False\<close>: a failed call, a body that is not JSON, a missing key. The two tokens are
  assigned one after the other.
\<close>

definition refresh_access_token :: "api \<Rightarrow> bool res \<times> api" where
  "refresh_access_token a =
     (case requests_post a of
        (None, a1) \<Rightarrow> (Unscripted, a1)
      | (Some RequestException, a1) \<Rightarrow> (Ret False, a1)
      | (Some (Response status hdr body), a1) \<Rightarrow>
          if status = 200 then
            (case body of
               None \<Rightarrow> (Ret False, a1)
             | Some token_data \<Rightarrow>
                 (case getitem_key token_data ''access_token'' of
                    Inl e \<Rightarrow> (Ret False, a1)
                  | Inr new_access \<Rightarrow>
                      (let a2 = a1\<lparr>access_token := new_access\<rparr> in
                       case getitem_key token_data ''refresh_token'' of
                         Inl e \<Rightarrow> (Ret False, a2)
                       | Inr new_refresh \<Rightarrow> (Ret True, a2\<lparr>refresh_token := new_refresh\<rparr>))))
          else (Ret False, a1))"

text \<open>The URL built by \<^verbatim>\<open>make_request\<close>; an empty detail level counts as none.\<close>

definition request_url :: "string \<Rightarrow> string \<Rightarrow> string option \<Rightarrow> string" where
  "request_url endpoint date detail_level =
     ''https://api.fitbit.com/1/user/-'' @ ''/'' @ endpoint @ ''/date/'' @ date
     @ (case detail_level of None \<Rightarrow> [] | Some l \<Rightarrow> if l = [] then [] else ''/'' @ l)
     @ ''.json''"

text \<open>
  \<^verbatim>\<open>int(s)\<close> on a string: white space around, an optional sign, decimal digits with
  single underscores between them; \<^verbatim>\<open>ValueError\<close> (here \<open>None\<close>) otherwise.
\<close>

fun py_digits :: "nat \<Rightarrow> string \<Rightarrow> nat option" where
  "py_digits acc [] = Some acc"
| "py_digits acc (c # cs) =
     (if is_digit c then py_digits (10 * acc + digit_val c) cs
      else if c = CHR ''_'' then
        (case cs of
           [] \<Rightarrow> None
         | d # ds \<Rightarrow> if is_digit d then py_digits (10 * acc + digit_val d) ds else None)
      else None)"

definition py_strip :: "string \<Rightarrow> string" where
  "py_strip s = rev (dropWhile py_isspace (rev (dropWhile py_isspace s)))"

definition py_unsigned :: "string \<Rightarrow> nat option" where
  "py_unsigned s =
     (case s of [] \<Rightarrow> None | c # cs \<Rightarrow> if is_digit c then py_digits (digit_val c) cs else None)"

definition py_int :: "string \<Rightarrow> int option" where
  "py_int s =
     (case py_strip s of
        [] \<Rightarrow> None
      | c # cs \<Rightarrow>
          if c = CHR ''-'' then map_option (\<lambda>n. - int n) (py_unsigned cs)
          else if c = CHR ''+'' then map_option int (py_unsigned cs)
          else map_option int (py_unsigned (c # cs)))"

text \<open>\<^verbatim>\<open>int(response.headers.get('Retry-After', 3600))\<close>.\<close>

definition retry_after_seconds :: "string option \<Rightarrow> exn + int" where
  "retry_after_seconds hdr =
     (case hdr of
        None \<Rightarrow> Inr 3600
      | Some s \<Rightarrow> (case py_int s of None \<Rightarrow> Inl ValueError | Some n \<Rightarrow> Inr n))"

text \<open>
  The first part of the \<^verbatim>\<open>try\<close> block of \<^verbatim>\<open>make_request\<close>: the request and, on
  status 401, the refresh and the second request. The result is the response that the
  rest of the block handles, or \<open>None\<close> where the function returns \<^verbatim>\<open>None\<close> (a
  \<^verbatim>\<open>RequestException\<close>, a refresh that failed).
\<close>

definition get_with_refresh ::
  "api \<Rightarrow> string \<Rightarrow> (int \<times> string option \<times> json option) option res \<times> api" where
  "get_with_refresh a url =
     (case requests_get a url (access_token a) of
        (None, a1) \<Rightarrow> (Unscripted, a1)
      | (Some RequestException, a1) \<Rightarrow> (Ret None, a1)
      | (Some (Response status hdr body), a1) \<Rightarrow>
          if status = 401 then
            (case refresh_access_token a1 of
               (Unscripted, a2) \<Rightarrow> (Unscripted, a2)
             | (Raised e, a2) \<Rightarrow> (Raised e, a2)
             | (Ret False, a2) \<Rightarrow> (Ret None, a2)
             | (Ret True, a2) \<Rightarrow>
                 (case requests_get a2 url (access_token a2) of
                    (None, a3) \<Rightarrow> (Unscripted, a3)
                  | (Some RequestException, a3) \<Rightarrow> (Ret None, a3)
                  | (Some (Response status2 hdr2 body2), a3) \<Rightarrow>
                      (Ret (Some (status2, hdr2, body2)), a3)))
          else (Ret (Some (status, hdr, body)), a1))"

text \<open>
  \<^verbatim>\<open>make_request\<close>. On status 429 the wait is read and slept, and the function calls
  itself with the same endpoint, date and detail level; \<^verbatim>\<open>int\<close> and
  \<^verbatim>\<open>time.sleep\<close> raise \<^verbatim>\<open>ValueError\<close> (for a header that is not an integer, for a
  negative wait), which the handler for \<^verbatim>\<open>RequestException\<close> does not catch.
  \<^verbatim>\<open>raise_for_status\<close> raises for the codes 400 to 599 and \<^verbatim>\<open>response.json()\<close> for a
  body that is not JSON; both are \<^verbatim>\<open>RequestException\<close>s (the latter since
  \<^verbatim>\<open>requests\<close> 2.27) and give \<^verbatim>\<open>None\<close>.
\<close>

function make_request :: "api \<Rightarrow> string \<Rightarrow> string option \<Rightarrow> string option \<Rightarrow> json option res \<times> api" where
  "make_request a endpoint date detail_level =
     (let d = (case date of None \<Rightarrow> clock_date a | Some x \<Rightarrow> x) in
      case get_with_refresh a (request_url endpoint d detail_level) of
        (Unscripted, a1) \<Rightarrow> (Unscripted, a1)
      | (Raised e, a1) \<Rightarrow> (Raised e, a1)
      | (Ret None, a1) \<Rightarrow> (Ret None, a1)
      | (Ret (Some (status, hdr, body)), a1) \<Rightarrow>
          if status = 429 then
            (case retry_after_seconds hdr of
               Inl e \<Rightarrow> (Raised e, a1)
             | Inr retry_after \<Rightarrow>
                 if retry_after < 0 then (Raised ValueError, a1)
                 else make_request (a1\<lparr>trace := trace a1 @ [Sleep (of_int retry_after)]\<rparr>)
                        endpoint (Some d) detail_level)
          else if 400 \<le> status \<and> status < 600 then (Ret None, a1)
          else (Ret body, a1))"
  by pat_completeness auto
termination
  apply (relation "measure (\<lambda>(a, endpoint, date, detail_level). length (get_script a))")
   apply simp
  apply (auto simp: get_with_refresh_def requests_get_def refresh_access_token_def
                    requests_post_def Let_def
              split: list.splits http_outcome.splits if_splits option.splits sum.splits
                     prod.splits res.splits bool.splits)
  done

declare make_request.simps [simp del]

section \<open>The derived score: \<^verbatim>\<open>calculate_pem_risk\<close>\<close>

text \<open>
  Each of the three blocks takes the score so far and returns the new one, or raises.
\<close>

definition hr_block :: "rat \<Rightarrow> json option \<Rightarrow> exn + rat" where
  "hr_block risk_score hr_data =
     (case hr_data of
        None \<Rightarrow> Inr risk_score
      | Some d \<Rightarrow>
          if \<not> truthy d then Inr risk_score
          else
            bnd (has_truthy ''activities-heart'' d) (\<lambda>ok.
              if ok then
                bnd (getitem_key d ''activities-heart'') (\<lambda>records.
                bnd (getitem0 records) (\<lambda>first.
                bnd (getitem_key first ''value'') (\<lambda>val.
                bnd (py_get val ''restingHeartRate'' (JInt 0)) (\<lambda>resting_hr.
                bnd (py_gt resting_hr 100) (\<lambda>elevated.
                  Inr (if elevated then risk_score + 30 else risk_score))))))
              else Inr risk_score))"

definition steps_block :: "rat \<Rightarrow> json option \<Rightarrow> exn + rat" where
  "steps_block risk_score steps_data =
     (case steps_data of
        None \<Rightarrow> Inr risk_score
      | Some d \<Rightarrow>
          if \<not> truthy d then Inr risk_score
          else
            bnd (has_truthy ''activities-steps'' d) (\<lambda>ok.
              if ok then
                bnd (getitem_key d ''activities-steps'') (\<lambda>records.
                bnd (getitem0 records) (\<lambda>first.
                bnd (py_get first ''value'' (JInt 0)) (\<lambda>steps.
                bnd (py_gt steps 5000) (\<lambda>high.
                  Inr (if high then risk_score + 25 else risk_score)))))
              else Inr risk_score))"

text \<open>The loop over the HRV records, which stops at the first record with a value block.\<close>

fun hrv_scan :: "rat \<Rightarrow> json list \<Rightarrow> exn + rat" where
  "hrv_scan risk_score [] = Inr risk_score"
| "hrv_scan risk_score (hrv_record # rest) =
     bnd (has_truthy ''value'' hrv_record) (\<lambda>has_value.
       if has_value then
         bnd (getitem_key hrv_record ''value'') (\<lambda>val.
         bnd (py_get val ''dailyRmssd'' (JInt 0)) (\<lambda>daily_rmssd.
         bnd (py_lt daily_rmssd 20) (\<lambda>low.
           Inr (if low then risk_score + 45 else risk_score))))
       else hrv_scan risk_score rest)"

definition hrv_block :: "rat \<Rightarrow> json option \<Rightarrow> exn + rat" where
  "hrv_block risk_score hrv_data =
     (case hrv_data of
        None \<Rightarrow> Inr risk_score
      | Some d \<Rightarrow>
          if \<not> truthy d then Inr risk_score
          else
            bnd (has_truthy ''hrv'' d) (\<lambda>ok.
              if ok then
                bnd (getitem_key d ''hrv'') (\<lambda>records.
                bnd (py_iter records) (\<lambda>rs. hrv_scan risk_score rs))
              else Inr risk_score))"

text \<open>
  \<^verbatim>\<open>calculate_pem_risk\<close>: three fetches, each followed by its block; any exception
  (also one that leaves \<^verbatim>\<open>make_request\<close>) gives \<^verbatim>\<open>0.0\<close>.
\<close>

definition calculate_pem_risk :: "api \<Rightarrow> string \<Rightarrow> rat res \<times> api" where
  "calculate_pem_risk a date =
     (case make_request a ''activities/heart'' (Some date) None of
        (Unscripted, a1) \<Rightarrow> (Unscripted, a1)
      | (Raised e, a1) \<Rightarrow> (Ret 0, a1)
      | (Ret hr_data, a1) \<Rightarrow>
          (case hr_block 0 hr_data of
             Inl e \<Rightarrow> (Ret 0, a1)
           | Inr risk1 \<Rightarrow>
               (case make_request a1 ''activities/steps'' (Some date) None of
                  (Unscripted, a2) \<Rightarrow> (Unscripted, a2)
                | (Raised e, a2) \<Rightarrow> (Ret 0, a2)
                | (Ret steps_data, a2) \<Rightarrow>
                    (case steps_block risk1 steps_data of
                       Inl e \<Rightarrow> (Ret 0, a2)
                     | Inr risk2 \<Rightarrow>
                         (case make_request a2 ''hrv'' (Some date) None of
                            (Unscripted, a3) \<Rightarrow> (Unscripted, a3)
                          | (Raised e, a3) \<Rightarrow> (Ret 0, a3)
                          | (Ret hrv_data, a3) \<Rightarrow>
                              (case hrv_block risk2 hrv_data of
                                 Inl e \<Rightarrow> (Ret 0, a3)
                               | Inr risk3 \<Rightarrow> (Ret (min risk3 100), a3)))))))"

section \<open>The run: \<^verbatim>\<open>main\<close>\<close>

definition DAILY_METRICS :: "string list" where
  "DAILY_METRICS =
     [''activities/steps'', ''activities/calories'', ''activities/distance'',
      ''activities/floors'', ''activities/elevation'', ''activities/minutesSedentary'',
      ''activities/minutesLightlyActive'', ''activities/minutesFairlyActive'',
      ''activities/minutesVeryActive'', ''activities/active-zone-minutes'',
      ''activities/heart'', ''body/weight'', ''body/bmi'', ''body/fat'',
      ''sleep'', ''spo2'', ''hrv'']"

definition INTRADAY_METRICS :: "string list" where
  "INTRADAY_METRICS =
     [''activities/heart'', ''activities/steps'', ''activities/calories'',
      ''activities/distance'', ''activities/floors'', ''activities/active-zone-minutes'']"

definition process_daily_summary ::
  "(string \<times> bool) list \<Rightarrow> string \<Rightarrow> api \<Rightarrow> string \<Rightarrow> point list res \<times> api" where
  "process_daily_summary hc date a metric =
     (case make_request a metric (Some date) None of
        (Unscripted, a1) \<Rightarrow> (Unscripted, a1)
      | (Raised e, a1) \<Rightarrow> (Raised e, a1)
      | (Ret data, a1) \<Rightarrow>
          (case daily_summary_points hc metric date data of
             Inl e \<Rightarrow> (Raised e, a1)
           | Inr (points, caught) \<Rightarrow> (Ret points, a1)))"

definition process_intraday_data ::
  "(string \<times> bool) list \<Rightarrow> string \<Rightarrow> string \<Rightarrow> api \<Rightarrow> string \<Rightarrow> point list res \<times> api" where
  "process_intraday_data hc date detail_level a metric =
     (case make_request a (metric @ ''/intraday'') (Some date) (Some detail_level) of
        (Unscripted, a1) \<Rightarrow> (Unscripted, a1)
      | (Raised e, a1) \<Rightarrow> (Raised e, a1)
      | (Ret data, a1) \<Rightarrow> (Ret (fst (intraday_data_points hc metric date data)), a1))"

text \<open>
  The loops \<^verbatim>\<open>for metric in ...: points = process(metric, today);
  all_points.extend(points); time.sleep(0.5)\<close>.
\<close>

fun collect ::
  "(api \<Rightarrow> string \<Rightarrow> point list res \<times> api) \<Rightarrow> string list \<Rightarrow> api \<Rightarrow> point list
     \<Rightarrow> point list res \<times> api" where
  "collect process [] a all_points = (Ret all_points, a)"
| "collect process (metric # metrics) a all_points =
     (case process a metric of
        (Unscripted, a1) \<Rightarrow> (Unscripted, a1)
      | (Raised e, a1) \<Rightarrow> (Raised e, a1)
      | (Ret points, a1) \<Rightarrow>
          collect process metrics (a1\<lparr>trace := trace a1 @ [Sleep (1 / 2)]\<rparr>) (all_points @ points))"

text \<open>
  The sink. \<open>write_raises\<close> says whether \<^verbatim>\<open>write_api.write\<close> raises; \<open>write_calls\<close>
  lists the batches handed to it, \<open>stored\<close> the points of the writes that succeeded,
  \<open>write_errors\<close> counts the errors that \<^verbatim>\<open>write_points\<close> caught and logged.
\<close>

record influx =
  connect_raises :: bool
  write_raises :: bool
  write_calls :: "point list list"
  stored :: "point list"
  write_errors :: nat
  closed :: bool

definition write_points :: "influx \<Rightarrow> point list \<Rightarrow> influx" where
  "write_points w points =
     (if points \<noteq> [] then
        (let w1 = w\<lparr>write_calls := write_calls w @ [points]\<rparr> in
         if write_raises w then w1\<lparr>write_errors := Suc (write_errors w1)\<rparr>
         else w1\<lparr>stored := stored w1 @ points\<rparr>)
      else w)"

definition hc_get :: "(string \<times> bool) list \<Rightarrow> string \<Rightarrow> bool" where
  "hc_get hc k = (case map_of hc k of None \<Rightarrow> False | Some b \<Rightarrow> b)"

definition str_bool :: "bool \<Rightarrow> string" where
  "str_bool b = (if b then ''True'' else ''False'')"

definition pem_point :: "(string \<times> bool) list \<Rightarrow> rat \<Rightarrow> datetime \<Rightarrow> point" where
  "pem_point hc pem_risk now =
     time now
       (tag ''pots'' (str_bool (hc_get hc ''pots''))
       (tag ''long_covid'' (str_bool (hc_get hc ''long_covid''))
       (field ''risk_score'' (JFloat pem_risk) (Point ''pem_risk''))))"

text \<open>
  The fetch phase of \<^verbatim>\<open>main\<close>: the daily metrics, the intraday metrics, and the
  risk point when \<^verbatim>\<open>long_covid\<close> or \<^verbatim>\<open>pem\<close> is enabled.
\<close>

definition fetch_phase ::
  "(string \<times> bool) list \<Rightarrow> string \<Rightarrow> datetime \<Rightarrow> api \<Rightarrow> point list res \<times> api" where
  "fetch_phase hc today now a =
     (case collect (process_daily_summary hc today) DAILY_METRICS a [] of
        (Unscripted, a1) \<Rightarrow> (Unscripted, a1)
      | (Raised e, a1) \<Rightarrow> (Raised e, a1)
      | (Ret daily, a1) \<Rightarrow>
          (case collect (process_intraday_data hc today ''1min'') INTRADAY_METRICS a1 daily of
             (Unscripted, a2) \<Rightarrow> (Unscripted, a2)
           | (Raised e, a2) \<Rightarrow> (Raised e, a2)
           | (Ret all_points, a2) \<Rightarrow>
               if hc_get hc ''long_covid'' \<or> hc_get hc ''pem'' then
                 (case calculate_pem_risk a2 today of
                    (Unscripted, a3) \<Rightarrow> (Unscripted, a3)
                  | (Raised e, a3) \<Rightarrow> (Raised e, a3)
                  | (Ret pem_risk, a3) \<Rightarrow> (Ret (all_points @ [pem_point hc pem_risk now]), a3))
               else (Ret all_points, a2)))"

datatype run_status = MissingConfiguration | Failed exn | NoData | Completed nat

text \<open>
  \<^verbatim>\<open>FitbitAPI()\<close> and \<^verbatim>\<open>InfluxDBWriter()\<close> read the constants that the module took
  from the environment when it was loaded (\<open>envi\<close>); \<^verbatim>\<open>main\<close> checks the environment
  after \<^verbatim>\<open>load_environment_from_file\<close> (\<open>envm\<close>).
\<close>

definition FitbitAPI :: "environ \<Rightarrow> api \<Rightarrow> exn + api" where
  "FitbitAPI envi net =
     (let cid = getenv envi ''FITBIT_CLIENT_ID'' [];
          secret = getenv envi ''FITBIT_CLIENT_SECRET'' [];
          access = getenv envi ''FITBIT_ACCESS_TOKEN'' [];
          refresh = getenv envi ''FITBIT_REFRESH_TOKEN'' []
      in if cid = [] \<or> secret = [] \<or> access = [] \<or> refresh = [] then Inl ValueError
         else Inr (net\<lparr>client_id := cid, client_secret := secret,
                        access_token := JStr access, refresh_token := JStr refresh\<rparr>))"

definition InfluxDBWriter :: "environ \<Rightarrow> influx \<Rightarrow> exn + influx" where
  "InfluxDBWriter envi db =
     (if getenv envi ''INFLUX_TOKEN'' [] = [] then Inl ValueError
      else if connect_raises db then Inl OtherError
      else Inr db)"

definition missing_vars :: "environ \<Rightarrow> string list" where
  "missing_vars envm =
     filter (\<lambda>var. getenv envm var [] = [])
       [''FITBIT_CLIENT_ID'', ''FITBIT_CLIENT_SECRET'', ''FITBIT_ACCESS_TOKEN'',
        ''FITBIT_REFRESH_TOKEN'']"

text \<open>
  \<^verbatim>\<open>main\<close>. An exception of the body is caught, logged and printed; the writer is
  closed in the \<^verbatim>\<open>finally\<close> clause when it exists. After the write the score is
  computed a second time for the printed summary.
\<close>

definition main :: "environ \<Rightarrow> environ \<Rightarrow> datetime \<Rightarrow> api \<Rightarrow> influx \<Rightarrow> run_status res \<times> api \<times> influx" where
  "main envi envm now net db =
     (if missing_vars envm \<noteq> [] then (Ret MissingConfiguration, net, db)
      else
        case FitbitAPI envi net of
          Inl e \<Rightarrow> (Ret (Failed e), net, db)
        | Inr a \<Rightarrow>
            (case InfluxDBWriter envi db of
               Inl e \<Rightarrow> (Ret (Failed e), a, db)
             | Inr w \<Rightarrow>
                 (let hc = HEALTH_CONDITIONS envi; today = clock_date a in
                  case fetch_phase hc today now a of
                    (Unscripted, a1) \<Rightarrow> (Unscripted, a1, w)
                  | (Raised e, a1) \<Rightarrow> (Ret (Failed e), a1, w\<lparr>closed := True\<rparr>)
                  | (Ret all_points, a1) \<Rightarrow>
                      if all_points \<noteq> [] then
                        (let w1 = write_points w all_points in
                         if hc_get hc ''long_covid'' \<or> hc_get hc ''pem'' then
                           (case calculate_pem_risk a1 today of
                              (Unscripted, a2) \<Rightarrow> (Unscripted, a2, w1)
                            | (Raised e, a2) \<Rightarrow> (Ret (Failed e), a2, w1\<lparr>closed := True\<rparr>)
                            | (Ret pem_risk, a2) \<Rightarrow>
                                (Ret (Completed (length all_points)), a2, w1\<lparr>closed := True\<rparr>))
                         else (Ret (Completed (length all_points)), a1, w1\<lparr>closed := True\<rparr>))
                      else (Ret NoData, a1, w\<lparr>closed := True\<rparr>))))"

section \<open>Vocabulary of the properties\<close>

text \<open>
  What the specification calls a record with a date, a main sleep session, a record
  with a date and a value; and the points that a loop body emits over a list of records
  on which it does not raise.
\<close>

fun is_dict :: "json \<Rightarrow> bool" where
  "is_dict (JObj kvs) = True"
| "is_dict _ = False"

fun dict_lookup :: "json \<Rightarrow> string \<Rightarrow> json option" where
  "dict_lookup (JObj kvs) k = map_of kvs k"
| "dict_lookup _ k = None"

definition date_under :: "string \<Rightarrow> json \<Rightarrow> datetime option" where
  "date_under k r =
     (case dict_lookup r k of
        Some (JStr s) \<Rightarrow> (case strptime_date s of Inl e \<Rightarrow> None | Inr d \<Rightarrow> Some d)
      | _ \<Rightarrow> None)"

definition main_or_absent :: "json \<Rightarrow> bool" where
  "main_or_absent r = (case dict_lookup r ''isMainSleep'' of None \<Rightarrow> True | Some flag \<Rightarrow> truthy flag)"

definition has_date_and_value :: "json \<Rightarrow> bool" where
  "has_date_and_value r = (dict_lookup r ''dateTime'' \<noteq> None \<and> dict_lookup r ''value'' \<noteq> None)"

definition emitted :: "(json \<Rightarrow> exn + point option) \<Rightarrow> json list \<Rightarrow> point list" where
  "emitted body rs = List.map_filter (\<lambda>r. case body r of Inl e \<Rightarrow> None | Inr q \<Rightarrow> q) rs"

definition session_fields :: "json \<Rightarrow> (string \<times> json) list" where
  "session_fields r =
     [(''efficiency'', (case dict_lookup r ''efficiency'' of None \<Rightarrow> JInt 0 | Some v \<Rightarrow> v)),
      (''minutes_asleep'', (case dict_lookup r ''minutesAsleep'' of None \<Rightarrow> JInt 0 | Some v \<Rightarrow> v)),
      (''minutes_awake'', (case dict_lookup r ''minutesAwake'' of None \<Rightarrow> JInt 0 | Some v \<Rightarrow> v)),
      (''time_in_bed'', (case dict_lookup r ''timeInBed'' of None \<Rightarrow> JInt 0 | Some v \<Rightarrow> v))]"

text \<open>The payload key and the loop body that \<^verbatim>\<open>process_daily_summary\<close> uses for a metric
  other than \<^verbatim>\<open>activities/heart\<close>.\<close>

definition daily_key :: "string \<Rightarrow> string" where
  "daily_key metric =
     (if metric = ''sleep'' \<or> metric = ''hrv'' \<or> metric = ''spo2'' then metric
      else last_segment metric)"

definition daily_body :: "(string \<times> bool) list \<Rightarrow> string \<Rightarrow> json \<Rightarrow> exn + point option" where
  "daily_body hc metric =
     (if metric = ''sleep'' then sleep_point hc (measurement_name metric)
      else if metric = ''hrv'' then hrv_point hc (measurement_name metric)
      else if metric = ''spo2'' then spo2_point (measurement_name metric)
      else generic_point (measurement_name metric))"

text \<open>The date that \<^verbatim>\<open>make_request\<close> puts into the URL.\<close>

definition resolve_date :: "api \<Rightarrow> string option \<Rightarrow> string" where
  "resolve_date a date = (case date of None \<Rightarrow> clock_date a | Some x \<Rightarrow> x)"

text \<open>
  The additive rule of the specification for the derived score, over the resting heart
  rate, the step count and the daily RMSSD of the first HRV record with a value block.
\<close>

definition spec_risk_score :: "rat \<Rightarrow> rat \<Rightarrow> rat \<Rightarrow> rat" where
  "spec_risk_score resting_hr steps daily_rmssd =
     min 100 ((if resting_hr > 100 then 30 else 0) + (if steps > 5000 then 25 else 0)
              + (if daily_rmssd < 20 then 45 else 0))"

section \<open>Basic facts\<close>

lemma bnd_Inl [simp]: "bnd (Inl e) f = Inl e"
  by (simp add: bnd_def)

lemma bnd_Inr [simp]: "bnd (Inr v) f = f v"
  by (simp add: bnd_def)

lemma bnd_eq_Inr: "bnd m f = Inr y \<longleftrightarrow> (\<exists>v. m = Inr v \<and> f v = Inr y)"
  by (cases m) simp_all

lemma bnd_eq_Inl: "bnd m f = Inl e \<longleftrightarrow> m = Inl e \<or> (\<exists>v. m = Inr v \<and> f v = Inl e)"
  by (cases m) auto

lemma pfields_add_health_tags [simp]: "pfields (add_health_tags hc p) = pfields p"
  by (induction hc p rule: add_health_tags.induct) (simp_all add: tag_def)

lemma ptime_add_health_tags [simp]: "ptime (add_health_tags hc p) = ptime p"
  by (induction hc p rule: add_health_tags.induct) (simp_all add: tag_def)

lemma pmeasurement_add_health_tags [simp]: "pmeasurement (add_health_tags hc p) = pmeasurement p"
  by (induction hc p rule: add_health_tags.induct) (simp_all add: tag_def)

section \<open>Health-condition flags\<close>

lemma health_flag_unset: "env var = None \<Longrightarrow> health_flag env var"
  by (simp add: health_flag_def getenv_def py_lower_def lower_char_def)

text \<open>
  C9, as the code has it. A flag whose environment variable is absent is enabled: the
  default of every \<^verbatim>\<open>os.getenv\<close> in \<^verbatim>\<open>HEALTH_CONDITIONS\<close> is \<^verbatim>\<open>'true'\<close>. With an empty
  configuration all five tags are attached to a tagged Point.
\<close>

theorem health_flags_default_enabled:
  "(env ''HEALTH_LONG_COVID'' = None \<longrightarrow> hc_get (HEALTH_CONDITIONS env) ''long_covid'') \<and>
   (env ''HEALTH_POTS'' = None \<longrightarrow> hc_get (HEALTH_CONDITIONS env) ''pots'') \<and>
   (env ''HEALTH_SMALL_FIBER_NEUROPATHY'' = None \<longrightarrow>
      hc_get (HEALTH_CONDITIONS env) ''small_fiber_neuropathy'') \<and>
   (env ''HEALTH_PEM'' = None \<longrightarrow> hc_get (HEALTH_CONDITIONS env) ''pem'') \<and>
   (env ''HEALTH_DYSAUTONOMIA'' = None \<longrightarrow> hc_get (HEALTH_CONDITIONS env) ''dysautonomia'') \<and>
   ((\<forall>var. env var = None) \<longrightarrow>
      ptags (add_health_tags (HEALTH_CONDITIONS env) (Point m)) =
        [(''long_covid'', ''true''), (''pots'', ''true''), (''small_fiber_neuropathy'', ''true''),
         (''pem'', ''true''), (''dysautonomia'', ''true'')])"
  by (simp add: HEALTH_CONDITIONS_def hc_get_def health_flag_unset tag_def Point_def)

theorem health_flags_default_enabled_witness:
  "hc_get (HEALTH_CONDITIONS Map.empty) ''pem'' \<and>
   ptags (add_health_tags (HEALTH_CONDITIONS Map.empty) (Point ''sleep'')) =
     [(''long_covid'', ''true''), (''pots'', ''true''), (''small_fiber_neuropathy'', ''true''),
      (''pem'', ''true''), (''dysautonomia'', ''true'')]"
  using health_flags_default_enabled [of Map.empty "''sleep''"] by simp

text \<open>
  C9 as stated (an absent entry disables the flag, so an empty configuration attaches no
  tag) fails: with an empty environment the flag \<^verbatim>\<open>long_covid\<close> is enabled and the
  heart-rate Point carries the five tags.
\<close>

theorem health_flags_default_counterexample:
  "hc_get (HEALTH_CONDITIONS Map.empty) ''long_covid'' = True \<and>
   map ptags (fst (daily_block (HEALTH_CONDITIONS Map.empty) ''activities/heart''
      \<lparr>dt_year = 2024, dt_month = 1, dt_day = 15, dt_hour = 0, dt_minute = 0, dt_second = 0\<rparr>
      (JObj [(''activities-heart'',
              JArr [JObj [(''dateTime'', JStr ''2024-01-15''),
                          (''value'', JObj [(''restingHeartRate'', JInt 62)])]])]))) =
     [[(''long_covid'', ''true''), (''pots'', ''true''), (''small_fiber_neuropathy'', ''true''),
       (''pem'', ''true''), (''dysautonomia'', ''true'')]]"
  by code_simp

section \<open>The HRV ratio\<close>

lemma py_in_no_zdiv: "py_in k x \<noteq> Inl ZeroDivisionError"
  by (cases x) simp_all

lemma getitem_key_no_zdiv: "getitem_key x k \<noteq> Inl ZeroDivisionError"
  by (cases x) (simp_all split: option.splits)

lemma py_get_no_zdiv: "py_get x k d \<noteq> Inl ZeroDivisionError"
  by (cases x) simp_all

lemma has_truthy_no_zdiv: "has_truthy k x \<noteq> Inl ZeroDivisionError"
  by (auto simp: has_truthy_def bnd_eq_Inl py_in_no_zdiv getitem_key_no_zdiv)

lemma strptime_date_no_zdiv: "strptime_date s \<noteq> Inl ZeroDivisionError"
  by (simp add: strptime_date_def mk_datetime_def split: list.splits prod.splits)

lemma strptime_date_obj_no_zdiv: "strptime_date_obj x \<noteq> Inl ZeroDivisionError"
  by (cases x) (simp_all add: strptime_date_no_zdiv)

lemma guarded_div_no_zdiv:
  "(if py_ne0 hf then py_truediv lf hf else Inr (JInt 0)) \<noteq> Inl ZeroDivisionError"
  by (auto simp: py_ne0_def py_truediv_def split: option.splits)

lemma hrv_point_no_zdiv: "hrv_point hc m r \<noteq> Inl ZeroDivisionError"
  unfolding hrv_point_def
  by (auto simp: bnd_eq_Inl has_truthy_no_zdiv getitem_key_no_zdiv py_get_no_zdiv
        strptime_date_obj_no_zdiv guarded_div_no_zdiv)

lemma hrv_point_fields:
  assumes "hrv_point hc m r = Inr (Some p)"
  shows "\<exists>kvs. getitem_key r ''value'' = Inr (JObj kvs) \<and>
     (let lf = (case map_of kvs ''lf'' of None \<Rightarrow> JInt 0 | Some x \<Rightarrow> x);
          hf = (case map_of kvs ''hf'' of None \<Rightarrow> JInt 1 | Some x \<Rightarrow> x)
      in map_of (pfields p) ''hf'' = Some hf \<and> map_of (pfields p) ''lf'' = Some lf \<and>
         (if py_ne0 hf
          then \<exists>q. py_truediv lf hf = Inr q \<and> map_of (pfields p) ''lf_hf_ratio'' = Some q
          else map_of (pfields p) ''lf_hf_ratio'' = Some (JInt 0)))"
proof -
  from assms obtain val where v: "getitem_key r ''value'' = Inr val"
    by (auto simp: hrv_point_def bnd_eq_Inr split: if_splits)
  from assms v obtain kvs where k: "val = JObj kvs"
    by (cases val) (auto simp: hrv_point_def bnd_eq_Inr split: if_splits)
  show ?thesis
    using assms v k
    by (auto simp: hrv_point_def bnd_eq_Inr Let_def field_def time_def Point_def update_conv'
             split: if_splits)
qed

text \<open>
  C5. The HRV rule never raises \<^verbatim>\<open>ZeroDivisionError\<close>. For a record that yields a
  Point, whose value block is then a dict: when \<^verbatim>\<open>hf\<close> is present and equal to 0 the
  field \<^verbatim>\<open>lf_hf_ratio\<close> is the integer 0; when \<^verbatim>\<open>hf\<close> is absent the field \<^verbatim>\<open>hf\<close> is 1
  and \<^verbatim>\<open>lf_hf_ratio\<close> is the quotient of \<^verbatim>\<open>lf\<close> (0 when absent) by 1.
\<close>

theorem hrv_ratio_guard:
  "hrv_point hc m r \<noteq> Inl ZeroDivisionError \<and>
   (hrv_point hc m r = Inr (Some p) \<longrightarrow>
      (\<exists>kvs. getitem_key r ''value'' = Inr (JObj kvs) \<and>
         (case map_of kvs ''hf'' of
            None \<Rightarrow>
              map_of (pfields p) ''hf'' = Some (JInt 1) \<and>
              (\<exists>q. py_truediv (case map_of kvs ''lf'' of None \<Rightarrow> JInt 0 | Some x \<Rightarrow> x) (JInt 1) = Inr q
                 \<and> map_of (pfields p) ''lf_hf_ratio'' = Some q)
          | Some hf \<Rightarrow>
              num_of hf = Some 0 \<longrightarrow> map_of (pfields p) ''lf_hf_ratio'' = Some (JInt 0))))"
proof (intro conjI impI)
  show "hrv_point hc m r \<noteq> Inl ZeroDivisionError"
    by (rule hrv_point_no_zdiv)
next
  assume "hrv_point hc m r = Inr (Some p)"
  from hrv_point_fields [OF this] obtain kvs where
    v: "getitem_key r ''value'' = Inr (JObj kvs)" and
    f: "let lf = (case map_of kvs ''lf'' of None \<Rightarrow> JInt 0 | Some x \<Rightarrow> x);
            hf = (case map_of kvs ''hf'' of None \<Rightarrow> JInt 1 | Some x \<Rightarrow> x)
        in map_of (pfields p) ''hf'' = Some hf \<and> map_of (pfields p) ''lf'' = Some lf \<and>
           (if py_ne0 hf
            then \<exists>q. py_truediv lf hf = Inr q \<and> map_of (pfields p) ''lf_hf_ratio'' = Some q
            else map_of (pfields p) ''lf_hf_ratio'' = Some (JInt 0))"
    by blast
  have "case map_of kvs ''hf'' of
            None \<Rightarrow>
              map_of (pfields p) ''hf'' = Some (JInt 1) \<and>
              (\<exists>q. py_truediv (case map_of kvs ''lf'' of None \<Rightarrow> JInt 0 | Some x \<Rightarrow> x) (JInt 1) = Inr q
                 \<and> map_of (pfields p) ''lf_hf_ratio'' = Some q)
          | Some hf \<Rightarrow>
              num_of hf = Some 0 \<longrightarrow> map_of (pfields p) ''lf_hf_ratio'' = Some (JInt 0)"
    using f by (cases "map_of kvs ''hf''") (auto simp: Let_def py_ne0_def split: if_splits)
  with v show "\<exists>kvs. getitem_key r ''value'' = Inr (JObj kvs) \<and>
         (case map_of kvs ''hf'' of
            None \<Rightarrow>
              map_of (pfields p) ''hf'' = Some (JInt 1) \<and>
              (\<exists>q. py_truediv (case map_of kvs ''lf'' of None \<Rightarrow> JInt 0 | Some x \<Rightarrow> x) (JInt 1) = Inr q
                 \<and> map_of (pfields p) ''lf_hf_ratio'' = Some q)
          | Some hf \<Rightarrow>
              num_of hf = Some 0 \<longrightarrow> map_of (pfields p) ''lf_hf_ratio'' = Some (JInt 0))"
    by blast
qed

theorem hrv_ratio_guard_witness:
  "(\<exists>p. hrv_point [(''pots'', True)] ''hrv''
          (JObj [(''dateTime'', JStr ''2024-01-15''),
                 (''value'', JObj [(''dailyRmssd'', JInt 34), (''lf'', JInt 120), (''hf'', JInt 0)])])
        = Inr (Some p) \<and> map_of (pfields p) ''lf_hf_ratio'' = Some (JInt 0)) \<and>
   (\<exists>p. hrv_point [(''pots'', True)] ''hrv''
          (JObj [(''dateTime'', JStr ''2024-01-15''),
                 (''value'', JObj [(''dailyRmssd'', JInt 34), (''lf'', JInt 120)])])
        = Inr (Some p) \<and> map_of (pfields p) ''hf'' = Some (JInt 1)
          \<and> map_of (pfields p) ''lf_hf_ratio'' = Some (JFloat 120))"
proof -
  let ?r0 = "JObj [(''dateTime'', JStr ''2024-01-15''),
                 (''value'', JObj [(''dailyRmssd'', JInt 34), (''lf'', JInt 120), (''hf'', JInt 0)])]"
  let ?r1 = "JObj [(''dateTime'', JStr ''2024-01-15''),
                 (''value'', JObj [(''dailyRmssd'', JInt 34), (''lf'', JInt 120)])]"
  have "case hrv_point [(''pots'', True)] ''hrv'' ?r0 of Inr (Some p) \<Rightarrow> True | _ \<Rightarrow> False"
    by code_simp
  then obtain p0 where e0: "hrv_point [(''pots'', True)] ''hrv'' ?r0 = Inr (Some p0)"
    by (auto split: sum.splits option.splits)
  have "case hrv_point [(''pots'', True)] ''hrv'' ?r1 of Inr (Some p) \<Rightarrow> True | _ \<Rightarrow> False"
    by code_simp
  then obtain p1 where e1: "hrv_point [(''pots'', True)] ''hrv'' ?r1 = Inr (Some p1)"
    by (auto split: sum.splits option.splits)
  have "map_of (pfields p0) ''lf_hf_ratio'' = Some (JInt 0)"
    using hrv_ratio_guard [of "[(''pots'', True)]" "''hrv''" ?r0 p0] e0 by auto
  moreover have "map_of (pfields p1) ''hf'' = Some (JInt 1)
      \<and> map_of (pfields p1) ''lf_hf_ratio'' = Some (JFloat 120)"
    using hrv_ratio_guard [of "[(''pots'', True)]" "''hrv''" ?r1 p1] e1
    by (auto simp: py_truediv_def)
  ultimately show ?thesis using e0 e1 by blast
qed

section \<open>Loops over records\<close>

lemma for_records_ok:
  "\<forall>r\<in>set rs. \<exists>q. body r = Inr q \<Longrightarrow> for_records body rs acc = (acc @ emitted body rs, None)"
proof (induction rs arbitrary: acc)
  case Nil
  then show ?case by (simp add: emitted_def)
next
  case (Cons r rs)
  then obtain q where q: "body r = Inr q" by auto
  from Cons have ih: "\<And>acc. for_records body rs acc = (acc @ emitted body rs, None)" by simp
  show ?case
    by (cases q) (simp_all add: q ih emitted_def)
qed

lemma for_records_error:
  assumes "\<forall>r\<in>set good. \<exists>q. body r = Inr q" and "body bad = Inl e"
  shows "for_records body (good @ bad # rest) acc = (acc @ emitted body good, Some e)"
  using assms(1)
proof (induction good arbitrary: acc)
  case Nil
  then show ?case by (simp add: emitted_def assms(2))
next
  case (Cons r rs)
  then obtain q where q: "body r = Inr q" by auto
  from Cons have ih: "\<And>acc. for_records body (rs @ bad # rest) acc = (acc @ emitted body rs, Some e)"
    by simp
  show ?case
    by (cases q) (simp_all add: q ih emitted_def)
qed

lemma for_records_length:
  "length (fst (for_records body rs acc)) \<le> length acc + length rs"
proof (induction rs arbitrary: acc)
  case Nil
  then show ?case by simp
next
  case (Cons r rs)
  show ?case
  proof (cases "body r")
    case (Inl e)
    then show ?thesis by simp
  next
    case (Inr q)
    then show ?thesis
      using Cons [of acc] Cons [of "acc @ [the q]"] by (cases q) auto
  qed
qed

lemma records_under_list:
  assumes "map_of dkvs k = Some (JArr rs)"
  shows "records_under k (JObj dkvs) body = for_records body rs []"
proof -
  from assms have "k \<in> fst ` set dkvs" by (force dest: map_of_SomeD)
  then show ?thesis
    using assms by (cases rs) (simp_all add: records_under_def has_truthy_def)
qed

lemma emitted_filter:
  assumes "\<forall>r\<in>set rs. body r = Inr (if keep r then Some (g r) else None)"
  shows "emitted body rs = map g (filter keep rs)"
  using assms by (induction rs) (simp_all add: emitted_def)

lemma sleep_point_dict:
  assumes "is_dict r" and "main_or_absent r \<longrightarrow> date_under ''dateOfSleep'' r \<noteq> None"
  shows "sleep_point hc m r =
     Inr (if main_or_absent r
          then Some (add_health_tags hc
                 \<lparr>pmeasurement = m, pfields = session_fields r, ptags = [],
                  ptime = date_under ''dateOfSleep'' r\<rparr>)
          else None)"
proof -
  from assms obtain kvs where r: "r = JObj kvs" by (cases r) auto
  show ?thesis
    using assms(2)
    by (auto simp: r sleep_point_def main_or_absent_def date_under_def session_fields_def
                   time_def field_def Point_def
             split: option.splits json.splits sum.splits)
qed

lemma generic_point_dict:
  assumes "is_dict r" and "has_date_and_value r \<longrightarrow> date_under ''dateTime'' r \<noteq> None"
  shows "generic_point m r =
     Inr (if has_date_and_value r
          then Some \<lparr>pmeasurement = m,
              pfields = [(''value'', (case dict_lookup r ''value'' of None \<Rightarrow> JNull | Some v \<Rightarrow> v))],
              ptags = [], ptime = date_under ''dateTime'' r\<rparr>
          else None)"
proof -
  from assms obtain kvs where r: "r = JObj kvs" by (cases r) auto
  show ?thesis
    using assms(2)
    by (auto simp: r generic_point_def has_date_and_value_def date_under_def
                   time_def field_def Point_def map_of_eq_None_iff image_iff
             split: option.splits json.splits sum.splits)
qed

text \<open>
  C6, as the code has it. When every session of the payload is a dict, and every session
  whose \<^verbatim>\<open>isMainSleep\<close> is true (truthy) or absent carries a \<^verbatim>\<open>dateOfSleep\<close> that
  \<^verbatim>\<open>strptime\<close> accepts, the sleep rule emits exactly one Point for each such session,
  in order and at the session's date, and none for the others.
\<close>

theorem sleep_points_main_sessions:
  assumes "map_of dkvs ''sleep'' = Some (JArr rs)"
    and "\<forall>r\<in>set rs. is_dict r \<and> (main_or_absent r \<longrightarrow> date_under ''dateOfSleep'' r \<noteq> None)"
  shows "daily_block hc ''sleep'' ts (JObj dkvs) =
           (map (\<lambda>r. add_health_tags hc
                   \<lparr>pmeasurement = ''sleep'', pfields = session_fields r, ptags = [],
                    ptime = date_under ''dateOfSleep'' r\<rparr>)
                (filter main_or_absent rs), None)"
proof -
  let ?body = "sleep_point hc ''sleep''"
  let ?g = "\<lambda>r. add_health_tags hc
                   \<lparr>pmeasurement = ''sleep'', pfields = session_fields r, ptags = [],
                    ptime = date_under ''dateOfSleep'' r\<rparr>"
  have each: "\<forall>r\<in>set rs. ?body r = Inr (if main_or_absent r then Some (?g r) else None)"
    using assms(2) by (simp add: sleep_point_dict)
  then have ok: "\<forall>r\<in>set rs. \<exists>q. ?body r = Inr q" by blast
  have "daily_block hc ''sleep'' ts (JObj dkvs) = records_under ''sleep'' (JObj dkvs) ?body"
    by (simp add: daily_block_def measurement_name_def)
  also have "\<dots> = for_records ?body rs []"
    by (rule records_under_list [OF assms(1)])
  also have "\<dots> = (emitted ?body rs, None)"
    using for_records_ok [OF ok, of "[]"] by simp
  also have "emitted ?body rs = map ?g (filter main_or_absent rs)"
    by (rule emitted_filter [OF each])
  finally show ?thesis .
qed

theorem sleep_points_main_sessions_witness:
  "map ptime (fst (daily_block [(''pots'', True)] ''sleep''
      \<lparr>dt_year = 2024, dt_month = 1, dt_day = 15, dt_hour = 0, dt_minute = 0, dt_second = 0\<rparr>
      (JObj [(''sleep'',
         JArr [JObj [(''isMainSleep'', JBool True), (''dateOfSleep'', JStr ''2024-01-15''),
                     (''efficiency'', JInt 90)],
               JObj [(''isMainSleep'', JBool False)],
               JObj [(''dateOfSleep'', JStr ''2024-01-14''), (''timeInBed'', JInt 400)]])])))
   = [Some \<lparr>dt_year = 2024, dt_month = 1, dt_day = 15, dt_hour = 0, dt_minute = 0, dt_second = 0\<rparr>,
      Some \<lparr>dt_year = 2024, dt_month = 1, dt_day = 14, dt_hour = 0, dt_minute = 0, dt_second = 0\<rparr>]"
proof -
  let ?rs = "[JObj [(''isMainSleep'', JBool True), (''dateOfSleep'', JStr ''2024-01-15''),
                     (''efficiency'', JInt 90)],
               JObj [(''isMainSleep'', JBool False)],
               JObj [(''dateOfSleep'', JStr ''2024-01-14''), (''timeInBed'', JInt 400)]]"
  have h1: "map_of [(''sleep'', JArr ?rs)] ''sleep'' = Some (JArr ?rs)"
    by simp
  have h2: "\<forall>r\<in>set ?rs. is_dict r \<and> (main_or_absent r \<longrightarrow> date_under ''dateOfSleep'' r \<noteq> None)"
    by code_simp
  have dates: "map (date_under ''dateOfSleep'') (filter main_or_absent ?rs)
     = [Some \<lparr>dt_year = 2024, dt_month = 1, dt_day = 15, dt_hour = 0, dt_minute = 0, dt_second = 0\<rparr>,
        Some \<lparr>dt_year = 2024, dt_month = 1, dt_day = 14, dt_hour = 0, dt_minute = 0, dt_second = 0\<rparr>]"
    by code_simp
  have gen: "\<And>xs. map ptime (map (\<lambda>r. add_health_tags [(''pots'', True)]
                   \<lparr>pmeasurement = ''sleep'', pfields = session_fields r, ptags = [],
                    ptime = date_under ''dateOfSleep'' r\<rparr>) xs) = map (date_under ''dateOfSleep'') xs"
    by (simp add: comp_def tag_def)
  show ?thesis
    by (simp only: sleep_points_main_sessions [OF h1 h2] fst_conv gen dates)
qed

text \<open>
  C6 as stated (a Point for a session if and only if its flag is true or absent) fails:
  a main session without \<^verbatim>\<open>dateOfSleep\<close> raises \<^verbatim>\<open>KeyError\<close>, which ends the loop, so
  neither it nor the well-formed session after it, whose flag is absent, yields a Point.
\<close>

theorem sleep_main_session_counterexample:
  "main_or_absent (JObj [(''dateOfSleep'', JStr ''2024-01-15''), (''efficiency'', JInt 93)]) = True \<and>
   daily_block [] ''sleep''
      \<lparr>dt_year = 2024, dt_month = 1, dt_day = 15, dt_hour = 0, dt_minute = 0, dt_second = 0\<rparr>
      (JObj [(''sleep'',
         JArr [JObj [(''isMainSleep'', JBool True), (''efficiency'', JInt 90)],
               JObj [(''dateOfSleep'', JStr ''2024-01-15''), (''efficiency'', JInt 93)]])])
     = ([], Some KeyError)"
  by code_simp

text \<open>
  C7, as the code has it. For a metric without a rule of its own, the records are those
  under the payload key equal to the last path segment; there is at most one Point per
  record; and when every record is a dict, and every record with both \<^verbatim>\<open>dateTime\<close> and
  \<^verbatim>\<open>value\<close> has a \<^verbatim>\<open>dateTime\<close> that \<^verbatim>\<open>strptime\<close> accepts, there is exactly one Point
  for each such record, with the single field \<^verbatim>\<open>value\<close>, at the record's date.
\<close>

theorem generic_points:
  assumes "metric \<noteq> ''activities/heart''" and "metric \<noteq> ''sleep''"
    and "metric \<noteq> ''hrv''" and "metric \<noteq> ''spo2''"
    and "map_of dkvs (last_segment metric) = Some (JArr rs)"
  shows "length (fst (daily_block hc metric ts (JObj dkvs))) \<le> length rs \<and>
    ((\<forall>r\<in>set rs. is_dict r \<and> (has_date_and_value r \<longrightarrow> date_under ''dateTime'' r \<noteq> None)) \<longrightarrow>
       daily_block hc metric ts (JObj dkvs) =
         (map (\<lambda>r. \<lparr>pmeasurement = measurement_name metric,
                     pfields = [(''value'', (case dict_lookup r ''value'' of None \<Rightarrow> JNull | Some v \<Rightarrow> v))],
                     ptags = [], ptime = date_under ''dateTime'' r\<rparr>)
              (filter has_date_and_value rs), None))"
proof (intro conjI impI)
  let ?body = "generic_point (measurement_name metric)"
  let ?g = "\<lambda>r. \<lparr>pmeasurement = measurement_name metric,
                     pfields = [(''value'', (case dict_lookup r ''value'' of None \<Rightarrow> JNull | Some v \<Rightarrow> v))],
                     ptags = [], ptime = date_under ''dateTime'' r\<rparr>"
  have block: "daily_block hc metric ts (JObj dkvs) = for_records ?body rs []"
    using assms(1-4) records_under_list [OF assms(5)] by (simp add: daily_block_def)
  show "length (fst (daily_block hc metric ts (JObj dkvs))) \<le> length rs"
    using for_records_length [of ?body rs "[]"] by (simp add: block)
  assume wf: "\<forall>r\<in>set rs. is_dict r \<and> (has_date_and_value r \<longrightarrow> date_under ''dateTime'' r \<noteq> None)"
  have each: "\<forall>r\<in>set rs. ?body r = Inr (if has_date_and_value r then Some (?g r) else None)"
    using wf by (simp add: generic_point_dict)
  then have ok: "\<forall>r\<in>set rs. \<exists>q. ?body r = Inr q" by blast
  have "for_records ?body rs [] = (emitted ?body rs, None)"
    using for_records_ok [OF ok, of "[]"] by simp
  also have "emitted ?body rs = map ?g (filter has_date_and_value rs)"
    by (rule emitted_filter [OF each])
  finally show "daily_block hc metric ts (JObj dkvs) = (map ?g (filter has_date_and_value rs), None)"
    by (simp add: block)
qed


theorem generic_points_witness:
  "daily_block [] ''activities/steps''
      \<lparr>dt_year = 2024, dt_month = 1, dt_day = 15, dt_hour = 0, dt_minute = 0, dt_second = 0\<rparr>
      (JObj [(''steps'',
         JArr [JObj [(''dateTime'', JStr ''2024-01-15''), (''value'', JStr ''6000'')],
               JObj [(''dateTime'', JStr ''2024-01-14'')]])])
   = ([\<lparr>pmeasurement = ''activities_steps'', pfields = [(''value'', JStr ''6000'')], ptags = [],
        ptime = Some \<lparr>dt_year = 2024, dt_month = 1, dt_day = 15, dt_hour = 0, dt_minute = 0,
                       dt_second = 0\<rparr>\<rparr>], None)"
proof -
  let ?rs = "[JObj [(''dateTime'', JStr ''2024-01-15''), (''value'', JStr ''6000'')],
               JObj [(''dateTime'', JStr ''2024-01-14'')]]"
  have m: "''activities/steps'' \<noteq> ''activities/heart''" "''activities/steps'' \<noteq> ''sleep''"
    "''activities/steps'' \<noteq> ''hrv''" "''activities/steps'' \<noteq> ''spo2''"
    by simp_all
  have k: "map_of [(''steps'', JArr ?rs)] (last_segment ''activities/steps'') = Some (JArr ?rs)"
    by code_simp
  have wf: "\<forall>r\<in>set ?rs. is_dict r \<and> (has_date_and_value r \<longrightarrow> date_under ''dateTime'' r \<noteq> None)"
    by code_simp
  have pts: "map (\<lambda>r. \<lparr>pmeasurement = measurement_name ''activities/steps'',
                     pfields = [(''value'', (case dict_lookup r ''value'' of None \<Rightarrow> JNull | Some v \<Rightarrow> v))],
                     ptags = [], ptime = date_under ''dateTime'' r\<rparr>)
              (filter has_date_and_value ?rs)
     = [\<lparr>pmeasurement = ''activities_steps'', pfields = [(''value'', JStr ''6000'')], ptags = [],
        ptime = Some \<lparr>dt_year = 2024, dt_month = 1, dt_day = 15, dt_hour = 0, dt_minute = 0,
                       dt_second = 0\<rparr>\<rparr>]"
    by code_simp
  from generic_points [OF m k, THEN conjunct2, THEN mp, OF wf] pts
  show ?thesis by (simp only:)
qed

text \<open>
  C7 as stated (a Point exactly for the records with a date key and a value key) fails: a
  record with both keys whose date is not of the form that \<^verbatim>\<open>strptime\<close> accepts raises
  \<^verbatim>\<open>ValueError\<close> and yields no Point.
\<close>

theorem generic_points_counterexample:
  "has_date_and_value (JObj [(''dateTime'', JStr ''15/01/2024''), (''value'', JStr ''6000'')]) = True \<and>
   daily_block [] ''activities/steps''
      \<lparr>dt_year = 2024, dt_month = 1, dt_day = 15, dt_hour = 0, dt_minute = 0, dt_second = 0\<rparr>
      (JObj [(''steps'',
         JArr [JObj [(''dateTime'', JStr ''15/01/2024''), (''value'', JStr ''6000'')]])])
     = ([], Some ValueError)"
  by code_simp

section \<open>Errors during normalization\<close>

lemma daily_block_loop:
  assumes "metric \<noteq> ''activities/heart''" and "map_of dkvs (daily_key metric) = Some (JArr rs)"
  shows "daily_block hc metric ts (JObj dkvs) = for_records (daily_body hc metric) rs []"
proof -
  have "daily_block hc metric ts (JObj dkvs)
      = records_under (daily_key metric) (JObj dkvs) (daily_body hc metric)"
    using assms(1) by (simp add: daily_block_def daily_key_def daily_body_def Let_def)
  then show ?thesis
    by (simp add: records_under_list [OF assms(2)])
qed


lemma intraday_block_loop:
  assumes "find_intraday_key (map (\<lambda>kv. JStr (fst kv)) dkvs) = Some k"
    and "map_of dkvs k = Some (JObj inner)"
    and "map_of inner ''dataset'' = Some (JArr entries)"
  shows "intraday_block hc metric date (JObj dkvs) = for_records (intraday_point hc metric date) entries []"
proof -
  from assms(3) have "''dataset'' \<in> fst ` set inner" by (force dest: map_of_SomeD)
  then show ?thesis
    using assms by (simp add: intraday_block_def)
qed

lemma daily_summary_points_total:
  assumes "strptime_date date = Inr ts"
  shows "\<exists>pts caught. daily_summary_points hc metric date data = Inr (pts, caught)"
proof (cases data)
  case None
  then show ?thesis by (simp add: daily_summary_points_def)
next
  case (Some d)
  obtain pts caught where "daily_block hc metric ts d = (pts, caught)"
    by (cases "daily_block hc metric ts d")
  then show ?thesis
    by (simp add: daily_summary_points_def Some assms)
qed


text \<open>
  C8, as the code has it. Normalization does not raise: with a run date that parses,
  \<^verbatim>\<open>process_daily_summary\<close> returns a list of Points for every metric and payload, and
  the block of \<^verbatim>\<open>process_intraday_data\<close> returns one by construction. An error in the
  loop is caught (and logged), and the result is the list of the Points appended before
  the failing record, for the daily metrics and for the intraday dataset.
\<close>

theorem normalization_catches_errors:
  "(strptime_date date = Inr ts \<longrightarrow>
      (\<exists>pts caught. daily_summary_points hc metric date data = Inr (pts, caught))) \<and>
   (strptime_date date = Inr ts \<longrightarrow> metric \<noteq> ''activities/heart'' \<longrightarrow>
      map_of dkvs (daily_key metric) = Some (JArr (good @ bad # rest)) \<longrightarrow>
      (\<forall>r\<in>set good. \<exists>q. daily_body hc metric r = Inr q) \<longrightarrow> daily_body hc metric bad = Inl e \<longrightarrow>
      daily_summary_points hc metric date (Some (JObj dkvs))
        = Inr (emitted (daily_body hc metric) good, Some e)) \<and>
   (find_intraday_key (map (\<lambda>kv. JStr (fst kv)) ikvs) = Some k \<longrightarrow>
      map_of ikvs k = Some (JObj inner) \<longrightarrow>
      map_of inner ''dataset'' = Some (JArr (igood @ ibad # irest)) \<longrightarrow>
      (\<forall>r\<in>set igood. \<exists>q. intraday_point hc metric date r = Inr q) \<longrightarrow>
      intraday_point hc metric date ibad = Inl ie \<longrightarrow>
      intraday_data_points hc metric date (Some (JObj ikvs))
        = (emitted (intraday_point hc metric date) igood, Some ie))"
proof (intro conjI impI)
  assume d: "strptime_date date = Inr ts"
  show "\<exists>pts caught. daily_summary_points hc metric date data = Inr (pts, caught)"
    by (rule daily_summary_points_total [OF d])
next
  assume d: "strptime_date date = Inr ts" and m: "metric \<noteq> ''activities/heart''"
    and k: "map_of dkvs (daily_key metric) = Some (JArr (good @ bad # rest))"
    and g: "\<forall>r\<in>set good. \<exists>q. daily_body hc metric r = Inr q"
    and b: "daily_body hc metric bad = Inl e"
  from k have ne: "dkvs \<noteq> []" by auto
  have "daily_block hc metric ts (JObj dkvs) = (emitted (daily_body hc metric) good, Some e)"
    using daily_block_loop [OF m k] for_records_error [OF g b, of rest "[]"] by simp
  then show "daily_summary_points hc metric date (Some (JObj dkvs))
        = Inr (emitted (daily_body hc metric) good, Some e)"
    by (simp add: daily_summary_points_def d ne)
next
  assume f: "find_intraday_key (map (\<lambda>kv. JStr (fst kv)) ikvs) = Some k"
    and i: "map_of ikvs k = Some (JObj inner)"
    and ds: "map_of inner ''dataset'' = Some (JArr (igood @ ibad # irest))"
    and g: "\<forall>r\<in>set igood. \<exists>q. intraday_point hc metric date r = Inr q"
    and b: "intraday_point hc metric date ibad = Inl ie"
  from i have ne: "ikvs \<noteq> []" by auto
  have "intraday_block hc metric date (JObj ikvs)
      = (emitted (intraday_point hc metric date) igood, Some ie)"
    using intraday_block_loop [OF f i ds] for_records_error [OF g b, of irest "[]"] by simp
  then show "intraday_data_points hc metric date (Some (JObj ikvs))
        = (emitted (intraday_point hc metric date) igood, Some ie)"
    by (simp add: intraday_data_points_def ne)
qed


theorem normalization_catches_errors_witness:
  "daily_summary_points [] ''activities/steps'' ''2024-01-15''
     (Some (JObj [(''steps'',
        JArr [JObj [(''dateTime'', JStr ''2024-01-14''), (''value'', JStr ''6000'')],
              JObj [(''dateTime'', JStr ''15/01/2024''), (''value'', JStr ''7000'')]])]))
   = Inr ([\<lparr>pmeasurement = ''activities_steps'', pfields = [(''value'', JStr ''6000'')], ptags = [],
            ptime = Some \<lparr>dt_year = 2024, dt_month = 1, dt_day = 14, dt_hour = 0, dt_minute = 0,
                           dt_second = 0\<rparr>\<rparr>],
          Some ValueError) \<and>
   intraday_data_points [] ''activities/steps'' ''2024-01-15''
     (Some (JObj [(''activities-steps'', JArr []),
        (''activities-steps-intraday'',
         JObj [(''dataset'',
           JArr [JObj [(''time'', JStr ''00:01:00''), (''value'', JInt 7)],
                 JObj [(''time'', JStr ''24:00:00''), (''value'', JInt 9)]])])]))
   = ([\<lparr>pmeasurement = ''activities_steps_intraday'', pfields = [(''value'', JInt 7)], ptags = [],
        ptime = Some \<lparr>dt_year = 2024, dt_month = 1, dt_day = 15, dt_hour = 0, dt_minute = 1,
                       dt_second = 0\<rparr>\<rparr>],
      Some ValueError)"
proof -
  let ?ts = "\<lparr>dt_year = 2024, dt_month = 1, dt_day = 15, dt_hour = 0, dt_minute = 0, dt_second = 0\<rparr>"
  let ?g = "JObj [(''dateTime'', JStr ''2024-01-14''), (''value'', JStr ''6000'')]"
  let ?b = "JObj [(''dateTime'', JStr ''15/01/2024''), (''value'', JStr ''7000'')]"
  let ?dkvs = "[(''steps'', JArr [?g, ?b])]"
  let ?ig = "JObj [(''time'', JStr ''00:01:00''), (''value'', JInt 7)]"
  let ?ib = "JObj [(''time'', JStr ''24:00:00''), (''value'', JInt 9)]"
  let ?inner = "[(''dataset'', JArr [?ig, ?ib])]"
  let ?ikvs = "[(''activities-steps'', JArr []), (''activities-steps-intraday'', JObj ?inner)]"
  let ?p = "\<lparr>pmeasurement = ''activities_steps'', pfields = [(''value'', JStr ''6000'')], ptags = [],
            ptime = Some \<lparr>dt_year = 2024, dt_month = 1, dt_day = 14, dt_hour = 0, dt_minute = 0,
                           dt_second = 0\<rparr>\<rparr>"
  let ?ip = "\<lparr>pmeasurement = ''activities_steps_intraday'', pfields = [(''value'', JInt 7)], ptags = [],
        ptime = Some \<lparr>dt_year = 2024, dt_month = 1, dt_day = 15, dt_hour = 0, dt_minute = 1,
                       dt_second = 0\<rparr>\<rparr>"
  note t = normalization_catches_errors [where date = "''2024-01-15''" and ts = ?ts and hc = "[]"
      and metric = "''activities/steps''" and data = None and dkvs = ?dkvs and good = "[?g]"
      and bad = ?b and rest = "[]" and e = ValueError and ikvs = ?ikvs
      and k = "''activities-steps-intraday''" and inner = ?inner and igood = "[?ig]"
      and ibad = ?ib and irest = "[]" and ie = ValueError]
  have d: "strptime_date ''2024-01-15'' = Inr ?ts" by code_simp
  have m: "''activities/steps'' \<noteq> ''activities/heart''" by simp
  have k1: "map_of ?dkvs (daily_key ''activities/steps'') = Some (JArr ([?g] @ ?b # []))"
    by code_simp
  have g0: "daily_body [] ''activities/steps'' ?g = Inr (Some ?p)" by code_simp
  have g1: "\<forall>r\<in>set [?g]. \<exists>q. daily_body [] ''activities/steps'' r = Inr q"
    using g0 by simp
  have b1: "daily_body [] ''activities/steps'' ?b = Inl ValueError" by code_simp
  have e1: "emitted (daily_body [] ''activities/steps'') [?g] = [?p]" by code_simp
  have f2: "find_intraday_key (map (\<lambda>kv. JStr (fst kv)) ?ikvs) = Some ''activities-steps-intraday''"
    by code_simp
  have i2: "map_of ?ikvs ''activities-steps-intraday'' = Some (JObj ?inner)" by simp
  have ds2: "map_of ?inner ''dataset'' = Some (JArr ([?ig] @ ?ib # []))" by simp
  have g20: "intraday_point [] ''activities/steps'' ''2024-01-15'' ?ig = Inr (Some ?ip)" by code_simp
  have g2: "\<forall>r\<in>set [?ig]. \<exists>q. intraday_point [] ''activities/steps'' ''2024-01-15'' r = Inr q"
    using g20 by simp
  have b2: "intraday_point [] ''activities/steps'' ''2024-01-15'' ?ib = Inl ValueError" by code_simp
  have e2: "emitted (intraday_point [] ''activities/steps'' ''2024-01-15'') [?ig] = [?ip]"
    by code_simp
  have c1: "daily_summary_points [] ''activities/steps'' ''2024-01-15'' (Some (JObj ?dkvs))
      = Inr (emitted (daily_body [] ''activities/steps'') [?g], Some ValueError)"
    by (rule t [THEN conjunct2, THEN conjunct1, THEN mp, THEN mp, THEN mp, THEN mp, THEN mp,
                OF d m k1 g1 b1])
  have c2: "intraday_data_points [] ''activities/steps'' ''2024-01-15'' (Some (JObj ?ikvs))
      = (emitted (intraday_point [] ''activities/steps'' ''2024-01-15'') [?ig], Some ValueError)"
    by (rule t [THEN conjunct2, THEN conjunct2, THEN mp, THEN mp, THEN mp, THEN mp, THEN mp,
                OF f2 i2 ds2 g2 b2])
  show ?thesis
    by (simp only: c1 c2 e1 e2 simp_thms)
qed

text \<open>
  C8 as stated (an internal error gives an empty sequence) fails: the second session has
  no \<^verbatim>\<open>dateOfSleep\<close>, the \<^verbatim>\<open>KeyError\<close> is caught, and the Point of the first session is
  returned.
\<close>

theorem normalization_catches_errors_counterexample:
  "daily_summary_points [] ''sleep'' ''2024-01-15''
     (Some (JObj [(''sleep'',
        JArr [JObj [(''dateOfSleep'', JStr ''2024-01-15''), (''efficiency'', JInt 93)],
              JObj [(''isMainSleep'', JBool True), (''efficiency'', JInt 90)]])]))
   = Inr ([\<lparr>pmeasurement = ''sleep'',
            pfields = [(''efficiency'', JInt 93), (''minutes_asleep'', JInt 0),
                       (''minutes_awake'', JInt 0), (''time_in_bed'', JInt 0)],
            ptags = [],
            ptime = Some \<lparr>dt_year = 2024, dt_month = 1, dt_day = 15, dt_hour = 0, dt_minute = 0,
                           dt_second = 0\<rparr>\<rparr>],
          Some KeyError)"
  by code_simp


section \<open>Token refresh\<close>

lemma refresh_failure_response:
  assumes "post_script a = Response status hdr body # ps" and "status \<noteq> 200"
  shows "refresh_access_token a =
     (Ret False, a\<lparr>post_script := ps,
                   trace := trace a @ [Post (refresh_token a) (client_id a) (client_secret a)]\<rparr>)"
  using assms by (simp add: refresh_access_token_def requests_post_def)

lemma refresh_success:
  assumes "post_script a = Response 200 hdr (Some token_data) # ps"
    and "getitem_key token_data ''access_token'' = Inr new_access"
    and "getitem_key token_data ''refresh_token'' = Inr new_refresh"
  shows "refresh_access_token a =
     (Ret True, a\<lparr>access_token := new_access, refresh_token := new_refresh, post_script := ps,
                  trace := trace a @ [Post (refresh_token a) (client_id a) (client_secret a)]\<rparr>)"
  using assms by (simp add: refresh_access_token_def requests_post_def)

lemma refresh_access_token_trace:
  assumes "refresh_access_token a = (Ret r, a2)"
  shows "trace a2 = trace a @ [Post (refresh_token a) (client_id a) (client_secret a)]
         \<and> get_script a2 = get_script a"
  using assms
  by (auto simp: refresh_access_token_def requests_post_def Let_def
           split: list.splits http_outcome.splits if_splits option.splits sum.splits)

text \<open>
  C3 holds for a response other than 200 and for a response whose body has both tokens
  (the two lemmas above), and fails between the two assignments: the token endpoint
  answers 200 with a body that has \<^verbatim>\<open>access_token\<close> and no \<^verbatim>\<open>refresh_token\<close>; the
  access token is stored, the second lookup raises \<^verbatim>\<open>KeyError\<close>, the handler returns
  \<^verbatim>\<open>False\<close>, and the stored pair is the new access token with the old refresh token.
\<close>

theorem refresh_partial_update:
  "refresh_access_token
     (\<lparr>client_id = ''id'', client_secret = ''secret'', access_token = JStr ''old-access'',
        refresh_token = JStr ''old-refresh'', clock_date = ''2024-01-15'',
        get_script = [], post_script = [Response 200 None (Some (JObj [(''access_token'', JStr ''new-access'')]))], trace = []\<rparr>)
   = (Ret False,
      \<lparr>client_id = ''id'', client_secret = ''secret'', access_token = JStr ''new-access'',
        refresh_token = JStr ''old-refresh'', clock_date = ''2024-01-15'',
        get_script = [], post_script = [], trace = [Post (JStr ''old-refresh'') ''id'' ''secret'']\<rparr>)"
  by code_simp


section \<open>Authorization failures\<close>

lemma make_request_401_refresh_failed:
  assumes "get_script a = Response 401 hdr body # gs"
    and "refresh_access_token
           (a\<lparr>get_script := gs,
              trace := trace a @ [Get (request_url endpoint
                 (case date of None \<Rightarrow> clock_date a | Some x \<Rightarrow> x) detail_level) (access_token a)]\<rparr>)
         = (Ret False, a2)"
  shows "make_request a endpoint date detail_level = (Ret None, a2)"
  using assms
  by (subst make_request.simps) (simp add: get_with_refresh_def requests_get_def Let_def)

lemma make_request_401_refreshed:
  assumes "get_script a = Response 401 hdr body # out # gs"
    and "post_script a = Response 200 phdr (Some token_data) # ps"
    and "getitem_key token_data ''access_token'' = Inr new_access"
    and "getitem_key token_data ''refresh_token'' = Inr new_refresh"
    and "\<forall>h b. out \<noteq> Response 429 h b"
    and "url = request_url endpoint (case date of None \<Rightarrow> clock_date a | Some x \<Rightarrow> x) detail_level"
  shows "make_request a endpoint date detail_level =
     (Ret (case out of
             RequestException \<Rightarrow> None
           | Response status h b \<Rightarrow> if 400 \<le> status \<and> status < 600 then None else b),
      a\<lparr>access_token := new_access, refresh_token := new_refresh, get_script := gs,
        post_script := ps,
        trace := trace a @ [Get url (access_token a),
                            Post (refresh_token a) (client_id a) (client_secret a),
                            Get url new_access]\<rparr>)"
proof -
  let ?a1 = "a\<lparr>get_script := out # gs, trace := trace a @ [Get url (access_token a)]\<rparr>"
  have r: "refresh_access_token ?a1 =
     (Ret True, ?a1\<lparr>access_token := new_access, refresh_token := new_refresh, post_script := ps,
                  trace := trace ?a1 @ [Post (refresh_token ?a1) (client_id ?a1) (client_secret ?a1)]\<rparr>)"
    by (rule refresh_success [where hdr = phdr and token_data = token_data])
       (simp_all add: assms)
  show ?thesis
    using assms(1,5) r
    by (subst make_request.simps)
       (cases out; simp add: get_with_refresh_def requests_get_def Let_def assms(6) [symmetric])
qed


text \<open>
  C1, as the code has it. When the first response of a fetch is 401, the client calls the
  refresh once. If the refresh fails, the fetch returns \<^verbatim>\<open>None\<close> after one request
  and one refresh call. If it succeeds (the token endpoint answers 200 with both
  tokens), the stored credentials are the refreshed pair and the request is sent once
  more with the new access token; when the outcome of that second request is not a 429
  response, the fetch ends there: two requests, one refresh call, and the data of the
  second response (\<^verbatim>\<open>None\<close> for an error status or a failed request).
\<close>

theorem refresh_on_401:
  assumes "get_script a = Response 401 hdr body # gs"
    and "url = request_url endpoint (resolve_date a date) detail_level"
  shows
   "(refresh_access_token (a\<lparr>get_script := gs, trace := trace a @ [Get url (access_token a)]\<rparr>)
       = (Ret False, a2) \<longrightarrow>
     make_request a endpoint date detail_level = (Ret None, a2) \<and> get_script a2 = gs \<and>
     trace a2 = trace a @ [Get url (access_token a),
                           Post (refresh_token a) (client_id a) (client_secret a)]) \<and>
    (post_script a = Response 200 phdr (Some token_data) # ps \<longrightarrow>
     getitem_key token_data ''access_token'' = Inr new_access \<longrightarrow>
     getitem_key token_data ''refresh_token'' = Inr new_refresh \<longrightarrow>
     gs = out # gs' \<longrightarrow> (\<forall>h b. out \<noteq> Response 429 h b) \<longrightarrow>
     make_request a endpoint date detail_level =
       (Ret (case out of
               RequestException \<Rightarrow> None
             | Response status h b \<Rightarrow> if 400 \<le> status \<and> status < 600 then None else b),
        a\<lparr>access_token := new_access, refresh_token := new_refresh, get_script := gs',
          post_script := ps,
          trace := trace a @ [Get url (access_token a),
                              Post (refresh_token a) (client_id a) (client_secret a),
                              Get url new_access]\<rparr>))"
proof (intro conjI impI)
  assume r: "refresh_access_token (a\<lparr>get_script := gs, trace := trace a @ [Get url (access_token a)]\<rparr>)
       = (Ret False, a2)"
  show "make_request a endpoint date detail_level = (Ret None, a2)"
    using r unfolding assms(2) resolve_date_def
    by (rule make_request_401_refresh_failed [OF assms(1)])
  from refresh_access_token_trace [OF r]
  show "get_script a2 = gs"
    and "trace a2 = trace a @ [Get url (access_token a),
                           Post (refresh_token a) (client_id a) (client_secret a)]"
    by simp_all
next
  assume "post_script a = Response 200 phdr (Some token_data) # ps"
    and "getitem_key token_data ''access_token'' = Inr new_access"
    and "getitem_key token_data ''refresh_token'' = Inr new_refresh"
    and "gs = out # gs'" and "\<forall>h b. out \<noteq> Response 429 h b"
  then show "make_request a endpoint date detail_level =
       (Ret (case out of
               RequestException \<Rightarrow> None
             | Response status h b \<Rightarrow> if 400 \<le> status \<and> status < 600 then None else b),
        a\<lparr>access_token := new_access, refresh_token := new_refresh, get_script := gs',
          post_script := ps,
          trace := trace a @ [Get url (access_token a),
                              Post (refresh_token a) (client_id a) (client_secret a),
                              Get url new_access]\<rparr>)"
    using assms
    by (intro make_request_401_refreshed [where hdr = hdr and body = body and phdr = phdr
              and token_data = token_data])
       (simp_all add: resolve_date_def)
qed

theorem refresh_on_401_witness:
  "make_request
     (\<lparr>client_id = ''id'', client_secret = ''secret'', access_token = JStr ''old-access'',
        refresh_token = JStr ''old-refresh'', clock_date = ''2024-01-15'',
        get_script = [Response 401 None None, Response 200 None (Some (JObj [(''activities-steps'', JArr [JObj [(''dateTime'', JStr ''2024-01-15''), (''value'', JStr ''6000'')]])]))], post_script = [Response 200 None (Some (JObj [(''access_token'', JStr ''access-1''), (''refresh_token'', JStr ''refresh-1'')]))], trace = []\<rparr>)
     ''activities/steps'' (Some ''2024-01-15'') None
   = (Ret (Some (JObj [(''activities-steps'', JArr [JObj [(''dateTime'', JStr ''2024-01-15''), (''value'', JStr ''6000'')]])])),
      \<lparr>client_id = ''id'', client_secret = ''secret'', access_token = JStr ''access-1'',
        refresh_token = JStr ''refresh-1'', clock_date = ''2024-01-15'',
        get_script = [], post_script = [], trace = [Get ''https://api.fitbit.com/1/user/-/activities/steps/date/2024-01-15.json'' (JStr ''old-access''), Post (JStr ''old-refresh'') ''id'' ''secret'', Get ''https://api.fitbit.com/1/user/-/activities/steps/date/2024-01-15.json'' (JStr ''access-1'')]\<rparr>) \<and>
   make_request
     (\<lparr>client_id = ''id'', client_secret = ''secret'', access_token = JStr ''old-access'',
        refresh_token = JStr ''old-refresh'', clock_date = ''2024-01-15'',
        get_script = [Response 401 None None, Response 200 None (Some (JObj [(''activities-steps'', JArr [JObj [(''dateTime'', JStr ''2024-01-15''), (''value'', JStr ''6000'')]])]))], post_script = [Response 400 None None], trace = []\<rparr>)
     ''activities/steps'' (Some ''2024-01-15'') None
   = (Ret None,
      \<lparr>client_id = ''id'', client_secret = ''secret'', access_token = JStr ''old-access'',
        refresh_token = JStr ''old-refresh'', clock_date = ''2024-01-15'',
        get_script = [Response 200 None (Some (JObj [(''activities-steps'', JArr [JObj [(''dateTime'', JStr ''2024-01-15''), (''value'', JStr ''6000'')]])]))], post_script = [], trace = [Get ''https://api.fitbit.com/1/user/-/activities/steps/date/2024-01-15.json'' (JStr ''old-access''), Post (JStr ''old-refresh'') ''id'' ''secret'']\<rparr>)"
proof -
  let ?ok = "\<lparr>client_id = ''id'', client_secret = ''secret'', access_token = JStr ''old-access'',
        refresh_token = JStr ''old-refresh'', clock_date = ''2024-01-15'',
        get_script = [Response 401 None None, Response 200 None (Some (JObj [(''activities-steps'', JArr [JObj [(''dateTime'', JStr ''2024-01-15''), (''value'', JStr ''6000'')]])]))], post_script = [Response 200 None (Some (JObj [(''access_token'', JStr ''access-1''), (''refresh_token'', JStr ''refresh-1'')]))], trace = []\<rparr>"
  let ?bad = "\<lparr>client_id = ''id'', client_secret = ''secret'', access_token = JStr ''old-access'',
        refresh_token = JStr ''old-refresh'', clock_date = ''2024-01-15'',
        get_script = [Response 401 None None, Response 200 None (Some (JObj [(''activities-steps'', JArr [JObj [(''dateTime'', JStr ''2024-01-15''), (''value'', JStr ''6000'')]])]))], post_script = [Response 400 None None], trace = []\<rparr>"
  let ?bad2 = "\<lparr>client_id = ''id'', client_secret = ''secret'', access_token = JStr ''old-access'',
        refresh_token = JStr ''old-refresh'', clock_date = ''2024-01-15'',
        get_script = [Response 200 None (Some (JObj [(''activities-steps'', JArr [JObj [(''dateTime'', JStr ''2024-01-15''), (''value'', JStr ''6000'')]])]))], post_script = [], trace = [Get ''https://api.fitbit.com/1/user/-/activities/steps/date/2024-01-15.json'' (JStr ''old-access''), Post (JStr ''old-refresh'') ''id'' ''secret'']\<rparr>"
  let ?url = "''https://api.fitbit.com/1/user/-/activities/steps/date/2024-01-15.json''"
  have u1: "?url = request_url ''activities/steps'' (resolve_date ?ok (Some ''2024-01-15'')) None"
    by code_simp
  have u2: "?url = request_url ''activities/steps'' (resolve_date ?bad (Some ''2024-01-15'')) None"
    by code_simp
  have g1: "get_script ?ok = Response 401 None None # [Response 200 None (Some (JObj [(''activities-steps'', JArr [JObj [(''dateTime'', JStr ''2024-01-15''), (''value'', JStr ''6000'')]])]))]"
    by simp
  have g2: "get_script ?bad = Response 401 None None # [Response 200 None (Some (JObj [(''activities-steps'', JArr [JObj [(''dateTime'', JStr ''2024-01-15''), (''value'', JStr ''6000'')]])]))]"
    by simp
  have p1: "post_script ?ok = Response 200 None (Some (JObj [(''access_token'', JStr ''access-1''), (''refresh_token'', JStr ''refresh-1'')])) # []"
    by simp
  have k1: "getitem_key (JObj [(''access_token'', JStr ''access-1''), (''refresh_token'', JStr ''refresh-1'')]) ''access_token'' = Inr (JStr ''access-1'')"
    by simp
  have k2: "getitem_key (JObj [(''access_token'', JStr ''access-1''), (''refresh_token'', JStr ''refresh-1'')]) ''refresh_token'' = Inr (JStr ''refresh-1'')"
    by simp
  have o1: "\<forall>h b. Response 200 None (Some (JObj [(''activities-steps'', JArr [JObj [(''dateTime'', JStr ''2024-01-15''), (''value'', JStr ''6000'')]])])) \<noteq> Response 429 h b"
    by simp
  have rf: "refresh_access_token
       (?bad\<lparr>get_script := [Response 200 None (Some (JObj [(''activities-steps'', JArr [JObj [(''dateTime'', JStr ''2024-01-15''), (''value'', JStr ''6000'')]])]))],
              trace := trace ?bad @ [Get ?url (access_token ?bad)]\<rparr>) = (Ret False, ?bad2)"
    by code_simp
  have a: "make_request ?ok ''activities/steps'' (Some ''2024-01-15'') None =
       (Ret (case Response 200 None (Some (JObj [(''activities-steps'', JArr [JObj [(''dateTime'', JStr ''2024-01-15''), (''value'', JStr ''6000'')]])])) of
               RequestException \<Rightarrow> None
             | Response status h b \<Rightarrow> if 400 \<le> status \<and> status < 600 then None else b),
        ?ok\<lparr>access_token := JStr ''access-1'', refresh_token := JStr ''refresh-1'', get_script := [],
          post_script := [],
          trace := trace ?ok @ [Get ?url (access_token ?ok),
                              Post (refresh_token ?ok) (client_id ?ok) (client_secret ?ok),
                              Get ?url (JStr ''access-1'')]\<rparr>)"
    by (rule refresh_on_401 [OF g1 u1, THEN conjunct2, THEN mp, THEN mp, THEN mp, THEN mp, THEN mp,
          OF p1 k1 k2 refl o1])
  have b: "make_request ?bad ''activities/steps'' (Some ''2024-01-15'') None = (Ret None, ?bad2)"
    by (rule refresh_on_401 [OF g2 u2, THEN conjunct1, THEN mp, THEN conjunct1, OF rf])
  show ?thesis
    using a b by simp
qed

text \<open>
  C1 as stated (exactly two requests and exactly one refresh call) fails when the retried
  request is answered 429: the rate-limit handling sleeps and starts the fetch again,
  here with a second 401 and a second refresh. Four requests and two refresh calls.
\<close>

theorem refresh_on_401_counterexample:
  "make_request
     (\<lparr>client_id = ''id'', client_secret = ''secret'', access_token = JStr ''old-access'',
        refresh_token = JStr ''old-refresh'', clock_date = ''2024-01-15'',
        get_script = [Response 401 None None, Response 429 (Some ''0'') None, Response 401 None None, Response 200 None (Some (JObj [(''activities-steps'', JArr [JObj [(''dateTime'', JStr ''2024-01-15''), (''value'', JStr ''6000'')]])]))], post_script = [Response 200 None (Some (JObj [(''access_token'', JStr ''access-1''), (''refresh_token'', JStr ''refresh-1'')])), Response 200 None (Some (JObj [(''access_token'', JStr ''access-2''), (''refresh_token'', JStr ''refresh-2'')]))], trace = []\<rparr>)
     ''activities/steps'' (Some ''2024-01-15'') None
   = (Ret (Some (JObj [(''activities-steps'', JArr [JObj [(''dateTime'', JStr ''2024-01-15''), (''value'', JStr ''6000'')]])])),
      \<lparr>client_id = ''id'', client_secret = ''secret'', access_token = JStr ''access-2'',
        refresh_token = JStr ''refresh-2'', clock_date = ''2024-01-15'',
        get_script = [], post_script = [], trace = [Get ''https://api.fitbit.com/1/user/-/activities/steps/date/2024-01-15.json'' (JStr ''old-access''), Post (JStr ''old-refresh'') ''id'' ''secret'', Get ''https://api.fitbit.com/1/user/-/activities/steps/date/2024-01-15.json'' (JStr ''access-1''), Sleep 0, Get ''https://api.fitbit.com/1/user/-/activities/steps/date/2024-01-15.json'' (JStr ''access-1''), Post (JStr ''refresh-1'') ''id'' ''secret'', Get ''https://api.fitbit.com/1/user/-/activities/steps/date/2024-01-15.json'' (JStr ''access-2'')]\<rparr>)"
  by code_simp

section \<open>Rate limiting\<close>








section \<open>The derived score\<close>

lemma map_of_Some_key: "map_of kvs k = Some v \<Longrightarrow> k \<in> fst ` set kvs"
  by (force dest: map_of_SomeD)

lemma hr_block_shape:
  assumes "map_of hkvs ''activities-heart'' = Some (JArr (JObj fkvs # others))"
    and "map_of fkvs ''value'' = Some (JObj bkvs)"
    and "num_of (case map_of bkvs ''restingHeartRate'' of None \<Rightarrow> JInt 0 | Some x \<Rightarrow> x) = Some h"
  shows "hr_block risk (Some (JObj hkvs)) = Inr (if h > 100 then risk + 30 else risk)"
proof -
  from assms(1) have "hkvs \<noteq> []" by auto
  then show ?thesis
    using assms map_of_Some_key [OF assms(1)]
    by (simp add: hr_block_def has_truthy_def py_gt_def)
qed

lemma steps_block_shape:
  assumes "map_of skvs ''activities-steps'' = Some (JArr (JObj fkvs # others))"
    and "num_of (case map_of fkvs ''value'' of None \<Rightarrow> JInt 0 | Some x \<Rightarrow> x) = Some s"
  shows "steps_block risk (Some (JObj skvs)) = Inr (if s > 5000 then risk + 25 else risk)"
proof -
  from assms(1) have "skvs \<noteq> []" by auto
  then show ?thesis
    using assms map_of_Some_key [OF assms(1)]
    by (simp add: steps_block_def has_truthy_def py_gt_def)
qed

lemma hrv_scan_shape:
  assumes "\<forall>r\<in>set skipped. has_truthy ''value'' r = Inr False"
    and "map_of rkvs ''value'' = Some (JObj bkvs)" and "bkvs \<noteq> []"
    and "num_of (case map_of bkvs ''dailyRmssd'' of None \<Rightarrow> JInt 0 | Some x \<Rightarrow> x) = Some r"
  shows "hrv_scan risk (skipped @ JObj rkvs # others) = Inr (if r < 20 then risk + 45 else risk)"
  using assms(1)
proof (induction skipped)
  case Nil
  show ?case
    using assms(2-4) map_of_Some_key [OF assms(2)]
    by (simp add: has_truthy_def py_lt_def)
next
  case (Cons x xs)
  then show ?case by simp
qed

lemma hrv_block_shape:
  assumes "map_of vkvs ''hrv'' = Some (JArr (skipped @ JObj rkvs # others))"
    and "\<forall>r\<in>set skipped. has_truthy ''value'' r = Inr False"
    and "map_of rkvs ''value'' = Some (JObj bkvs)" and "bkvs \<noteq> []"
    and "num_of (case map_of bkvs ''dailyRmssd'' of None \<Rightarrow> JInt 0 | Some x \<Rightarrow> x) = Some r"
  shows "hrv_block risk (Some (JObj vkvs)) = Inr (if r < 20 then risk + 45 else risk)"
proof -
  from assms(1) have "vkvs \<noteq> []" by auto
  then show ?thesis
    using assms(1) map_of_Some_key [OF assms(1)] hrv_scan_shape [OF assms(2-5), of risk others]
    by (simp add: hrv_block_def has_truthy_def)
qed

text \<open>
  C4. When the three fetches of \<^verbatim>\<open>calculate_pem_risk\<close> return payloads of the vendor's
  shape with numbers in them (the first heart record's value block with its resting heart
  rate, the first steps record with its value, the first HRV record that has a value block
  with its daily RMSSD), the score is the additive rule of the specification: 30 for a
  resting heart rate above 100, 25 for more than 5000 steps, 45 for a daily RMSSD below
  20, at most 100. Only the first HRV record with a value block counts. When a fetch raises or one of the three blocks raises, the score is 0.
\<close>

theorem pem_risk_rule:
  "(make_request a ''activities/heart'' (Some date) None = (Ret (Some (JObj hkvs)), a1) \<longrightarrow>
    make_request a1 ''activities/steps'' (Some date) None = (Ret (Some (JObj skvs)), a2) \<longrightarrow>
    make_request a2 ''hrv'' (Some date) None = (Ret (Some (JObj vkvs)), a3) \<longrightarrow>
    map_of hkvs ''activities-heart'' = Some (JArr (JObj hfirst # hothers)) \<longrightarrow>
    map_of hfirst ''value'' = Some (JObj hval) \<longrightarrow>
    map_of hval ''restingHeartRate'' = Some hv \<longrightarrow> num_of hv = Some resting_hr \<longrightarrow>
    map_of skvs ''activities-steps'' = Some (JArr (JObj sfirst # sothers)) \<longrightarrow>
    map_of sfirst ''value'' = Some sv \<longrightarrow> num_of sv = Some steps \<longrightarrow>
    map_of vkvs ''hrv'' = Some (JArr (skipped @ JObj vrec # vothers)) \<longrightarrow>
    (\<forall>r\<in>set skipped. has_truthy ''value'' r = Inr False) \<longrightarrow>
    map_of vrec ''value'' = Some (JObj vval) \<longrightarrow>
    map_of vval ''dailyRmssd'' = Some rv \<longrightarrow> num_of rv = Some daily_rmssd \<longrightarrow>
    calculate_pem_risk a date = (Ret (spec_risk_score resting_hr steps daily_rmssd), a3)) \<and>
   (make_request a ''activities/heart'' (Some date) None = (Raised e, b1) \<longrightarrow>
      calculate_pem_risk a date = (Ret 0, b1)) \<and>
   (make_request a ''activities/heart'' (Some date) None = (Ret d1, b1) \<longrightarrow>
    hr_block 0 d1 = Inl e \<longrightarrow> calculate_pem_risk a date = (Ret 0, b1)) \<and>
   (make_request a ''activities/heart'' (Some date) None = (Ret d1, b1) \<longrightarrow>
    hr_block 0 d1 = Inr r1 \<longrightarrow>
    make_request b1 ''activities/steps'' (Some date) None = (Raised e, b2) \<longrightarrow>
      calculate_pem_risk a date = (Ret 0, b2)) \<and>
   (make_request a ''activities/heart'' (Some date) None = (Ret d1, b1) \<longrightarrow>
    hr_block 0 d1 = Inr r1 \<longrightarrow>
    make_request b1 ''activities/steps'' (Some date) None = (Ret d2, b2) \<longrightarrow>
    steps_block r1 d2 = Inl e \<longrightarrow> calculate_pem_risk a date = (Ret 0, b2)) \<and>
   (make_request a ''activities/heart'' (Some date) None = (Ret d1, b1) \<longrightarrow>
    hr_block 0 d1 = Inr r1 \<longrightarrow>
    make_request b1 ''activities/steps'' (Some date) None = (Ret d2, b2) \<longrightarrow>
    steps_block r1 d2 = Inr r2 \<longrightarrow>
    make_request b2 ''hrv'' (Some date) None = (Raised e, b3) \<longrightarrow>
      calculate_pem_risk a date = (Ret 0, b3)) \<and>
   (make_request a ''activities/heart'' (Some date) None = (Ret d1, b1) \<longrightarrow>
    hr_block 0 d1 = Inr r1 \<longrightarrow>
    make_request b1 ''activities/steps'' (Some date) None = (Ret d2, b2) \<longrightarrow>
    steps_block r1 d2 = Inr r2 \<longrightarrow>
    make_request b2 ''hrv'' (Some date) None = (Ret d3, b3) \<longrightarrow>
    hrv_block r2 d3 = Inl e \<longrightarrow> calculate_pem_risk a date = (Ret 0, b3))"
proof (intro conjI impI)
  assume f: "make_request a ''activities/heart'' (Some date) None = (Ret (Some (JObj hkvs)), a1)"
      "make_request a1 ''activities/steps'' (Some date) None = (Ret (Some (JObj skvs)), a2)"
      "make_request a2 ''hrv'' (Some date) None = (Ret (Some (JObj vkvs)), a3)"
    and h: "map_of hkvs ''activities-heart'' = Some (JArr (JObj hfirst # hothers))"
      "map_of hfirst ''value'' = Some (JObj hval)"
    and hn: "map_of hval ''restingHeartRate'' = Some hv" "num_of hv = Some resting_hr"
    and s: "map_of skvs ''activities-steps'' = Some (JArr (JObj sfirst # sothers))"
    and sn: "map_of sfirst ''value'' = Some sv" "num_of sv = Some steps"
    and v: "map_of vkvs ''hrv'' = Some (JArr (skipped @ JObj vrec # vothers))"
      "\<forall>r\<in>set skipped. has_truthy ''value'' r = Inr False"
      "map_of vrec ''value'' = Some (JObj vval)"
    and vn: "map_of vval ''dailyRmssd'' = Some rv" "num_of rv = Some daily_rmssd"
  have h3: "num_of (case map_of hval ''restingHeartRate'' of None \<Rightarrow> JInt 0 | Some x \<Rightarrow> x)
      = Some resting_hr"
    by (simp add: hn)
  have s2: "num_of (case map_of sfirst ''value'' of None \<Rightarrow> JInt 0 | Some x \<Rightarrow> x) = Some steps"
    by (simp add: sn)
  from vn(1) have v4: "vval \<noteq> []" by auto
  have v5: "num_of (case map_of vval ''dailyRmssd'' of None \<Rightarrow> JInt 0 | Some x \<Rightarrow> x)
      = Some daily_rmssd"
    by (simp add: vn)
  show "calculate_pem_risk a date = (Ret (spec_risk_score resting_hr steps daily_rmssd), a3)"
    by (simp add: calculate_pem_risk_def f hr_block_shape [OF h h3] steps_block_shape [OF s s2]
          hrv_block_shape [OF v v4 v5] spec_risk_score_def)
qed (simp_all add: calculate_pem_risk_def)

theorem pem_risk_rule_witness:
  "fst (calculate_pem_risk
      (\<lparr>client_id = ''id'', client_secret = ''secret'', access_token = JStr ''access'',
        refresh_token = JStr ''refresh'', clock_date = ''2024-01-15'',
        get_script =
          [Response 200 None (Some (JObj [(''activities-heart'',
             JArr [JObj [(''dateTime'', JStr ''2024-01-15''),
                         (''value'', JObj [(''restingHeartRate'', JInt 110)])]])])),
           Response 200 None (Some (JObj [(''activities-steps'',
             JArr [JObj [(''dateTime'', JStr ''2024-01-15''), (''value'', JInt 6000)]])])),
           Response 200 None (Some (JObj [(''hrv'',
             JArr [JObj [(''dateTime'', JStr ''2024-01-15''),
                         (''value'', JObj [(''dailyRmssd'', JInt 15), (''deepRmssd'', JInt 30)])]])]))],
        post_script = [], trace = []\<rparr>) ''2024-01-15'') = Ret 100 \<and>
   fst (calculate_pem_risk
      (\<lparr>client_id = ''id'', client_secret = ''secret'', access_token = JStr ''access'',
        refresh_token = JStr ''refresh'', clock_date = ''2024-01-15'',
        get_script =
          [Response 200 None (Some (JObj [(''activities-heart'',
             JArr [JObj [(''dateTime'', JStr ''2024-01-15''),
                         (''value'', JObj [(''restingHeartRate'', JInt 80)])]])])),
           Response 200 None (Some (JObj [(''activities-steps'',
             JArr [JObj [(''dateTime'', JStr ''2024-01-15''), (''value'', JInt 1000)]])])),
           Response 200 None (Some (JObj [(''hrv'',
             JArr [JObj [(''dateTime'', JStr ''2024-01-15''),
                         (''value'', JObj [(''dailyRmssd'', JInt 40), (''deepRmssd'', JInt 30)])]])]))],
        post_script = [], trace = []\<rparr>) ''2024-01-15'') = Ret 0 \<and>
   fst (calculate_pem_risk
      (\<lparr>client_id = ''id'', client_secret = ''secret'', access_token = JStr ''access'',
        refresh_token = JStr ''refresh'', clock_date = ''2024-01-15'',
        get_script =
          [Response 200 None (Some (JObj [(''activities-heart'',
             JArr [JObj [(''dateTime'', JStr ''2024-01-15''),
                         (''value'', JObj [(''restingHeartRate'', JInt 110)])]])])),
           Response 200 None (Some (JObj [(''activities-steps'',
             JArr [JObj [(''dateTime'', JStr ''2024-01-15''), (''value'', JStr ''6000'')]])]))],
        post_script = [], trace = []\<rparr>) ''2024-01-15'') = Ret 0"
proof -

  let ?A = "\<lparr>client_id = ''id'', client_secret = ''secret'', access_token = JStr ''access'',
        refresh_token = JStr ''refresh'', clock_date = ''2024-01-15'',
        get_script =
          [Response 200 None (Some (JObj [(''activities-heart'',
             JArr [JObj [(''dateTime'', JStr ''2024-01-15''),
                         (''value'', JObj [(''restingHeartRate'', JInt 110)])]])])),
           Response 200 None (Some (JObj [(''activities-steps'',
             JArr [JObj [(''dateTime'', JStr ''2024-01-15''), (''value'', JInt 6000)]])])),
           Response 200 None (Some (JObj [(''hrv'',
             JArr [JObj [(''dateTime'', JStr ''2024-01-15''),
                         (''value'', JObj [(''dailyRmssd'', JInt 15), (''deepRmssd'', JInt 30)])]])]))],
        post_script = [], trace = []\<rparr>"
  let ?hfirst = "[(''dateTime'', JStr ''2024-01-15''), (''value'', JObj [(''restingHeartRate'', JInt 110)])]"
  let ?hk = "[(''activities-heart'', JArr [JObj ?hfirst])]"
  let ?sfirst = "[(''dateTime'', JStr ''2024-01-15''), (''value'', JInt 6000)]"
  let ?sk = "[(''activities-steps'', JArr [JObj ?sfirst])]"
  let ?vval = "[(''dailyRmssd'', JInt 15), (''deepRmssd'', JInt 30)]"
  let ?vrec = "[(''dateTime'', JStr ''2024-01-15''), (''value'', JObj ?vval)]"
  let ?vk = "[(''hrv'', JArr [JObj ?vrec])]"
  let ?a1 = "snd (make_request ?A ''activities/heart'' (Some ''2024-01-15'') None)"
  let ?a2 = "snd (make_request ?a1 ''activities/steps'' (Some ''2024-01-15'') None)"
  let ?a3 = "snd (make_request ?a2 ''hrv'' (Some ''2024-01-15'') None)"
  have "fst (make_request ?A ''activities/heart'' (Some ''2024-01-15'') None) = Ret (Some (JObj ?hk))"
    by code_simp
  then have f1: "make_request ?A ''activities/heart'' (Some ''2024-01-15'') None
      = (Ret (Some (JObj ?hk)), ?a1)"
    by (simp add: prod_eq_iff)
  have "fst (make_request ?a1 ''activities/steps'' (Some ''2024-01-15'') None) = Ret (Some (JObj ?sk))"
    by code_simp
  then have f2: "make_request ?a1 ''activities/steps'' (Some ''2024-01-15'') None
      = (Ret (Some (JObj ?sk)), ?a2)"
    by (simp add: prod_eq_iff)
  have "fst (make_request ?a2 ''hrv'' (Some ''2024-01-15'') None) = Ret (Some (JObj ?vk))"
    by code_simp
  then have f3: "make_request ?a2 ''hrv'' (Some ''2024-01-15'') None = (Ret (Some (JObj ?vk)), ?a3)"
    by (simp add: prod_eq_iff)
  have s1: "map_of ?hk ''activities-heart'' = Some (JArr (JObj ?hfirst # []))" by simp
  have s2: "map_of ?hfirst ''value'' = Some (JObj [(''restingHeartRate'', JInt 110)])" by simp
  have s3: "map_of [(''restingHeartRate'', JInt 110)] ''restingHeartRate'' = Some (JInt 110)" by simp
  have s3n: "num_of (JInt 110) = Some 110" by simp
  have s4: "map_of ?sk ''activities-steps'' = Some (JArr (JObj ?sfirst # []))" by simp
  have s5: "map_of ?sfirst ''value'' = Some (JInt 6000)" by simp
  have s5n: "num_of (JInt 6000) = Some 6000" by simp
  have s6: "map_of ?vk ''hrv'' = Some (JArr ([] @ JObj ?vrec # []))" by simp
  have s7: "\<forall>r\<in>set []. has_truthy ''value'' r = Inr False" by simp
  have s8: "map_of ?vrec ''value'' = Some (JObj ?vval)" by simp
  have s10: "map_of ?vval ''dailyRmssd'' = Some (JInt 15)" by simp
  have s10n: "num_of (JInt 15) = Some 15" by simp
  have "calculate_pem_risk ?A ''2024-01-15'' = (Ret (spec_risk_score 110 6000 15), ?a3)"
    by (rule pem_risk_rule [THEN conjunct1, rule_format, OF f1 f2 f3 s1 s2 s3 s3n s4 s5 s5n s6 _ s8 s10 s10n])
       simp
  then have high: "fst (calculate_pem_risk ?A ''2024-01-15'') = Ret 100"
    by (simp add: spec_risk_score_def)

  let ?A = "\<lparr>client_id = ''id'', client_secret = ''secret'', access_token = JStr ''access'',
        refresh_token = JStr ''refresh'', clock_date = ''2024-01-15'',
        get_script =
          [Response 200 None (Some (JObj [(''activities-heart'',
             JArr [JObj [(''dateTime'', JStr ''2024-01-15''),
                         (''value'', JObj [(''restingHeartRate'', JInt 80)])]])])),
           Response 200 None (Some (JObj [(''activities-steps'',
             JArr [JObj [(''dateTime'', JStr ''2024-01-15''), (''value'', JInt 1000)]])])),
           Response 200 None (Some (JObj [(''hrv'',
             JArr [JObj [(''dateTime'', JStr ''2024-01-15''),
                         (''value'', JObj [(''dailyRmssd'', JInt 40), (''deepRmssd'', JInt 30)])]])]))],
        post_script = [], trace = []\<rparr>"
  let ?hfirst = "[(''dateTime'', JStr ''2024-01-15''), (''value'', JObj [(''restingHeartRate'', JInt 80)])]"
  let ?hk = "[(''activities-heart'', JArr [JObj ?hfirst])]"
  let ?sfirst = "[(''dateTime'', JStr ''2024-01-15''), (''value'', JInt 1000)]"
  let ?sk = "[(''activities-steps'', JArr [JObj ?sfirst])]"
  let ?vval = "[(''dailyRmssd'', JInt 40), (''deepRmssd'', JInt 30)]"
  let ?vrec = "[(''dateTime'', JStr ''2024-01-15''), (''value'', JObj ?vval)]"
  let ?vk = "[(''hrv'', JArr [JObj ?vrec])]"
  let ?a1 = "snd (make_request ?A ''activities/heart'' (Some ''2024-01-15'') None)"
  let ?a2 = "snd (make_request ?a1 ''activities/steps'' (Some ''2024-01-15'') None)"
  let ?a3 = "snd (make_request ?a2 ''hrv'' (Some ''2024-01-15'') None)"
  have "fst (make_request ?A ''activities/heart'' (Some ''2024-01-15'') None) = Ret (Some (JObj ?hk))"
    by code_simp
  then have f1: "make_request ?A ''activities/heart'' (Some ''2024-01-15'') None
      = (Ret (Some (JObj ?hk)), ?a1)"
    by (simp add: prod_eq_iff)
  have "fst (make_request ?a1 ''activities/steps'' (Some ''2024-01-15'') None) = Ret (Some (JObj ?sk))"
    by code_simp
  then have f2: "make_request ?a1 ''activities/steps'' (Some ''2024-01-15'') None
      = (Ret (Some (JObj ?sk)), ?a2)"
    by (simp add: prod_eq_iff)
  have "fst (make_request ?a2 ''hrv'' (Some ''2024-01-15'') None) = Ret (Some (JObj ?vk))"
    by code_simp
  then have f3: "make_request ?a2 ''hrv'' (Some ''2024-01-15'') None = (Ret (Some (JObj ?vk)), ?a3)"
    by (simp add: prod_eq_iff)
  have s1: "map_of ?hk ''activities-heart'' = Some (JArr (JObj ?hfirst # []))" by simp
  have s2: "map_of ?hfirst ''value'' = Some (JObj [(''restingHeartRate'', JInt 80)])" by simp
  have s3: "map_of [(''restingHeartRate'', JInt 80)] ''restingHeartRate'' = Some (JInt 80)" by simp
  have s3n: "num_of (JInt 80) = Some 80" by simp
  have s4: "map_of ?sk ''activities-steps'' = Some (JArr (JObj ?sfirst # []))" by simp
  have s5: "map_of ?sfirst ''value'' = Some (JInt 1000)" by simp
  have s5n: "num_of (JInt 1000) = Some 1000" by simp
  have s6: "map_of ?vk ''hrv'' = Some (JArr ([] @ JObj ?vrec # []))" by simp
  have s7: "\<forall>r\<in>set []. has_truthy ''value'' r = Inr False" by simp
  have s8: "map_of ?vrec ''value'' = Some (JObj ?vval)" by simp
  have s10: "map_of ?vval ''dailyRmssd'' = Some (JInt 40)" by simp
  have s10n: "num_of (JInt 40) = Some 40" by simp
  have "calculate_pem_risk ?A ''2024-01-15'' = (Ret (spec_risk_score 80 1000 40), ?a3)"
    by (rule pem_risk_rule [THEN conjunct1, rule_format, OF f1 f2 f3 s1 s2 s3 s3n s4 s5 s5n s6 _ s8 s10 s10n])
       simp
  then have low: "fst (calculate_pem_risk ?A ''2024-01-15'') = Ret 0"
    by (simp add: spec_risk_score_def)


  let ?B = "\<lparr>client_id = ''id'', client_secret = ''secret'', access_token = JStr ''access'',
        refresh_token = JStr ''refresh'', clock_date = ''2024-01-15'',
        get_script =
          [Response 200 None (Some (JObj [(''activities-heart'',
             JArr [JObj [(''dateTime'', JStr ''2024-01-15''),
                         (''value'', JObj [(''restingHeartRate'', JInt 110)])]])])),
           Response 200 None (Some (JObj [(''activities-steps'',
             JArr [JObj [(''dateTime'', JStr ''2024-01-15''), (''value'', JStr ''6000'')]])]))],
        post_script = [], trace = []\<rparr>"
  let ?bh = "[(''activities-heart'',
             JArr [JObj [(''dateTime'', JStr ''2024-01-15''),
                         (''value'', JObj [(''restingHeartRate'', JInt 110)])]])]"
  let ?bs = "[(''activities-steps'',
             JArr [JObj [(''dateTime'', JStr ''2024-01-15''), (''value'', JStr ''6000'')]])]"
  let ?b1 = "snd (make_request ?B ''activities/heart'' (Some ''2024-01-15'') None)"
  let ?b2 = "snd (make_request ?b1 ''activities/steps'' (Some ''2024-01-15'') None)"
  have "fst (make_request ?B ''activities/heart'' (Some ''2024-01-15'') None) = Ret (Some (JObj ?bh))"
    by code_simp
  then have g1: "make_request ?B ''activities/heart'' (Some ''2024-01-15'') None
      = (Ret (Some (JObj ?bh)), ?b1)"
    by (simp add: prod_eq_iff)
  have g2: "hr_block 0 (Some (JObj ?bh)) = Inr 30"
    by code_simp
  have "fst (make_request ?b1 ''activities/steps'' (Some ''2024-01-15'') None) = Ret (Some (JObj ?bs))"
    by code_simp
  then have g3: "make_request ?b1 ''activities/steps'' (Some ''2024-01-15'') None
      = (Ret (Some (JObj ?bs)), ?b2)"
    by (simp add: prod_eq_iff)
  have g4: "steps_block 30 (Some (JObj ?bs)) = Inl TypeError"
    by code_simp
  have "calculate_pem_risk ?B ''2024-01-15'' = (Ret 0, ?b2)"
    by (rule pem_risk_rule [THEN conjunct2, THEN conjunct2, THEN conjunct2, THEN conjunct2,
          THEN conjunct1, rule_format, OF g1 g2 g3 g4])
  then have failed: "fst (calculate_pem_risk ?B ''2024-01-15'') = Ret 0"
    by simp
  from high low failed show ?thesis by (intro conjI)
qed

section \<open>Writing the batch\<close>

lemma calculate_pem_risk_no_raise: "fst (calculate_pem_risk a date) \<noteq> Raised e"
  by (simp add: calculate_pem_risk_def split: prod.splits res.splits sum.splits)

lemma main_sink:
  assumes "main envi envm now net db = (st, a', w')"
  shows "(\<forall>e. st \<noteq> Raised e) \<and>
     ((write_calls w' = write_calls db \<and> write_errors w' = write_errors db \<and> stored w' = stored db
        \<and> (\<forall>n. st \<noteq> Ret (Completed n))) \<or>
      (\<exists>batch. batch \<noteq> [] \<and> write_calls w' = write_calls (write_points db batch)
        \<and> write_errors w' = write_errors (write_points db batch)
        \<and> stored w' = stored (write_points db batch)
        \<and> (st = Ret (Completed (length batch)) \<or> st = Unscripted)))"
proof (cases "missing_vars envm \<noteq> []")
  case True
  with assms show ?thesis by (auto simp: main_def)
next
  case mv: False
  show ?thesis
  proof (cases "FitbitAPI envi net")
    case (Inl e)
    with assms mv show ?thesis by (auto simp: main_def)
  next
    case api: (Inr a)
    show ?thesis
    proof (cases "InfluxDBWriter envi db")
      case (Inl e)
      with assms mv api show ?thesis by (auto simp: main_def)
    next
      case (Inr w)
      then have w: "w = db" by (auto simp: InfluxDBWriter_def split: if_splits)
      obtain r a1 where ph: "fetch_phase (HEALTH_CONDITIONS envi) (clock_date a) now a = (r, a1)"
        by (cases "fetch_phase (HEALTH_CONDITIONS envi) (clock_date a) now a")
      obtain r2 a2 where pr: "calculate_pem_risk a1 (clock_date a) = (r2, a2)"
        by (cases "calculate_pem_risk a1 (clock_date a)")
      have nr: "\<And>e. r2 \<noteq> Raised e"
        using calculate_pem_risk_no_raise [of a1 "clock_date a"] by (simp add: pr)
      show ?thesis
      proof (cases r)
        case Unscripted
        with assms mv api Inr ph w show ?thesis by (auto simp: main_def Let_def)
      next
        case (Raised e)
        with assms mv api Inr ph w show ?thesis by (auto simp: main_def Let_def)
      next
        case (Ret all_points)
        show ?thesis
        proof (cases "all_points = []")
          case True
          with assms mv api Inr ph w Ret show ?thesis by (auto simp: main_def Let_def)
        next
          case False
          with assms mv api Inr ph w Ret pr nr show ?thesis
            by (cases r2) (auto simp: main_def Let_def split: if_splits)
        qed
      qed
    qed
  qed
qed

lemma InfluxDBWriter_write_raises:
  "InfluxDBWriter envi (db\<lparr>write_raises := b\<rparr>)
     = (case InfluxDBWriter envi db of Inl e \<Rightarrow> Inl e | Inr w \<Rightarrow> Inr (w\<lparr>write_raises := b\<rparr>))"
  by (simp add: InfluxDBWriter_def)

lemma main_status_independent:
  "fst (main envi envm now net (db\<lparr>write_raises := b\<rparr>)) = fst (main envi envm now net db) \<and>
   fst (snd (main envi envm now net (db\<lparr>write_raises := b\<rparr>))) = fst (snd (main envi envm now net db))"
  by (simp add: main_def InfluxDBWriter_write_raises Let_def
           split: sum.splits prod.splits res.splits)


text \<open>
  C10, as the code has it. A run hands a batch to the sink at most once. A run that
  completes has handed exactly one batch, which is not empty and holds all its Points;
  a write that fails is caught and logged (counted in \<open>write_errors\<close>) and stores
  nothing. A run that ends otherwise (missing configuration, an exception, no data) has
  handed nothing to the sink. \<^verbatim>\<open>main\<close> does not raise, and whether the write fails or
  not makes no difference to how the run ends.
\<close>

theorem batch_written_at_most_once:
  assumes "main envi envm now net db = (st, a', w')"
  shows "length (write_calls w') \<le> Suc (length (write_calls db)) \<and>
     (\<forall>n. st = Ret (Completed n) \<longrightarrow>
        0 < n \<and> (\<exists>batch. length batch = n \<and> write_calls w' = write_calls db @ [batch]) \<and>
        (if write_raises db then write_errors w' = Suc (write_errors db) \<and> stored w' = stored db
         else write_errors w' = write_errors db)) \<and>
     ((\<forall>n. st \<noteq> Ret (Completed n)) \<longrightarrow> st \<noteq> Unscripted \<longrightarrow> write_calls w' = write_calls db) \<and>
     (\<forall>e. st \<noteq> Raised e) \<and>
     fst (main envi envm now net (db\<lparr>write_raises := b\<rparr>)) = st"
proof -
  have ind: "fst (main envi envm now net (db\<lparr>write_raises := b\<rparr>)) = st"
    using main_status_independent [where envi = envi and envm = envm and now = now and net = net
        and db = db and b = b] assms by simp
  from main_sink [OF assms] have nr: "\<forall>e. st \<noteq> Raised e"
    and cases: "(write_calls w' = write_calls db \<and> write_errors w' = write_errors db \<and> stored w' = stored db
        \<and> (\<forall>n. st \<noteq> Ret (Completed n))) \<or>
      (\<exists>batch. batch \<noteq> [] \<and> write_calls w' = write_calls (write_points db batch)
        \<and> write_errors w' = write_errors (write_points db batch)
        \<and> stored w' = stored (write_points db batch)
        \<and> (st = Ret (Completed (length batch)) \<or> st = Unscripted))"
    by blast+
  from cases show ?thesis
  proof
    assume "write_calls w' = write_calls db \<and> write_errors w' = write_errors db \<and> stored w' = stored db
        \<and> (\<forall>n. st \<noteq> Ret (Completed n))"
    with nr ind show ?thesis by simp
  next
    assume "\<exists>batch. batch \<noteq> [] \<and> write_calls w' = write_calls (write_points db batch)
        \<and> write_errors w' = write_errors (write_points db batch)
        \<and> stored w' = stored (write_points db batch)
        \<and> (st = Ret (Completed (length batch)) \<or> st = Unscripted)"
    then obtain batch where b: "batch \<noteq> []"
      and wc: "write_calls w' = write_calls db @ [batch]"
      and we: "write_errors w' = (if write_raises db then Suc (write_errors db) else write_errors db)"
      and ws: "write_raises db \<longrightarrow> stored w' = stored db"
      and st: "st = Ret (Completed (length batch)) \<or> st = Unscripted"
      by (auto simp: write_points_def Let_def split: if_splits)
    from st show ?thesis
    proof
      assume "st = Ret (Completed (length batch))"
      with b wc we ws nr ind show ?thesis by auto
    next
      assume "st = Unscripted"
      with b wc we ws nr ind show ?thesis by auto
    qed
  qed
qed

theorem batch_written_at_most_once_witness:
  "fst (main ([''FITBIT_CLIENT_ID'' \<mapsto> ''id'', ''FITBIT_CLIENT_SECRET'' \<mapsto> ''secret'',
       ''FITBIT_ACCESS_TOKEN'' \<mapsto> ''access'', ''FITBIT_REFRESH_TOKEN'' \<mapsto> ''refresh'',
       ''INFLUX_TOKEN'' \<mapsto> ''token'', ''HEALTH_LONG_COVID'' \<mapsto> ''false'',
       ''HEALTH_PEM'' \<mapsto> ''false'']) ([''FITBIT_CLIENT_ID'' \<mapsto> ''id'', ''FITBIT_CLIENT_SECRET'' \<mapsto> ''secret'',
       ''FITBIT_ACCESS_TOKEN'' \<mapsto> ''access'', ''FITBIT_REFRESH_TOKEN'' \<mapsto> ''refresh'',
       ''INFLUX_TOKEN'' \<mapsto> ''token'', ''HEALTH_LONG_COVID'' \<mapsto> ''false'',
       ''HEALTH_PEM'' \<mapsto> ''false''])
      \<lparr>dt_year = 2024, dt_month = 1, dt_day = 15, dt_hour = 23, dt_minute = 30, dt_second = 0\<rparr>
      (\<lparr>client_id = [], client_secret = [], access_token = JNull, refresh_token = JNull,
        clock_date = ''2024-01-15'', get_script = (Response 200 None (Some (JObj [(''steps'',
             JArr [JObj [(''dateTime'', JStr ''2024-01-15''), (''value'', JStr ''6000'')]])])) # replicate 22 RequestException), post_script = [], trace = []\<rparr>)
      (\<lparr>connect_raises = False, write_raises = True, write_calls = [], stored = [],
        write_errors = 0, closed = False\<rparr>)) = Ret (Completed 1) \<and>
   length (write_calls (snd (snd (main ([''FITBIT_CLIENT_ID'' \<mapsto> ''id'', ''FITBIT_CLIENT_SECRET'' \<mapsto> ''secret'',
       ''FITBIT_ACCESS_TOKEN'' \<mapsto> ''access'', ''FITBIT_REFRESH_TOKEN'' \<mapsto> ''refresh'',
       ''INFLUX_TOKEN'' \<mapsto> ''token'', ''HEALTH_LONG_COVID'' \<mapsto> ''false'',
       ''HEALTH_PEM'' \<mapsto> ''false'']) ([''FITBIT_CLIENT_ID'' \<mapsto> ''id'', ''FITBIT_CLIENT_SECRET'' \<mapsto> ''secret'',
       ''FITBIT_ACCESS_TOKEN'' \<mapsto> ''access'', ''FITBIT_REFRESH_TOKEN'' \<mapsto> ''refresh'',
       ''INFLUX_TOKEN'' \<mapsto> ''token'', ''HEALTH_LONG_COVID'' \<mapsto> ''false'',
       ''HEALTH_PEM'' \<mapsto> ''false''])
      \<lparr>dt_year = 2024, dt_month = 1, dt_day = 15, dt_hour = 23, dt_minute = 30, dt_second = 0\<rparr>
      (\<lparr>client_id = [], client_secret = [], access_token = JNull, refresh_token = JNull,
        clock_date = ''2024-01-15'', get_script = (Response 200 None (Some (JObj [(''steps'',
             JArr [JObj [(''dateTime'', JStr ''2024-01-15''), (''value'', JStr ''6000'')]])])) # replicate 22 RequestException), post_script = [], trace = []\<rparr>)
      (\<lparr>connect_raises = False, write_raises = True, write_calls = [], stored = [],
        write_errors = 0, closed = False\<rparr>))))) = 1 \<and>
   write_errors (snd (snd (main ([''FITBIT_CLIENT_ID'' \<mapsto> ''id'', ''FITBIT_CLIENT_SECRET'' \<mapsto> ''secret'',
       ''FITBIT_ACCESS_TOKEN'' \<mapsto> ''access'', ''FITBIT_REFRESH_TOKEN'' \<mapsto> ''refresh'',
       ''INFLUX_TOKEN'' \<mapsto> ''token'', ''HEALTH_LONG_COVID'' \<mapsto> ''false'',
       ''HEALTH_PEM'' \<mapsto> ''false'']) ([''FITBIT_CLIENT_ID'' \<mapsto> ''id'', ''FITBIT_CLIENT_SECRET'' \<mapsto> ''secret'',
       ''FITBIT_ACCESS_TOKEN'' \<mapsto> ''access'', ''FITBIT_REFRESH_TOKEN'' \<mapsto> ''refresh'',
       ''INFLUX_TOKEN'' \<mapsto> ''token'', ''HEALTH_LONG_COVID'' \<mapsto> ''false'',
       ''HEALTH_PEM'' \<mapsto> ''false''])
      \<lparr>dt_year = 2024, dt_month = 1, dt_day = 15, dt_hour = 23, dt_minute = 30, dt_second = 0\<rparr>
      (\<lparr>client_id = [], client_secret = [], access_token = JNull, refresh_token = JNull,
        clock_date = ''2024-01-15'', get_script = (Response 200 None (Some (JObj [(''steps'',
             JArr [JObj [(''dateTime'', JStr ''2024-01-15''), (''value'', JStr ''6000'')]])])) # replicate 22 RequestException), post_script = [], trace = []\<rparr>)
      (\<lparr>connect_raises = False, write_raises = True, write_calls = [], stored = [],
        write_errors = 0, closed = False\<rparr>)))) = 1"
proof -
  let ?run = "main ([''FITBIT_CLIENT_ID'' \<mapsto> ''id'', ''FITBIT_CLIENT_SECRET'' \<mapsto> ''secret'',
       ''FITBIT_ACCESS_TOKEN'' \<mapsto> ''access'', ''FITBIT_REFRESH_TOKEN'' \<mapsto> ''refresh'',
       ''INFLUX_TOKEN'' \<mapsto> ''token'', ''HEALTH_LONG_COVID'' \<mapsto> ''false'',
       ''HEALTH_PEM'' \<mapsto> ''false'']) ([''FITBIT_CLIENT_ID'' \<mapsto> ''id'', ''FITBIT_CLIENT_SECRET'' \<mapsto> ''secret'',
       ''FITBIT_ACCESS_TOKEN'' \<mapsto> ''access'', ''FITBIT_REFRESH_TOKEN'' \<mapsto> ''refresh'',
       ''INFLUX_TOKEN'' \<mapsto> ''token'', ''HEALTH_LONG_COVID'' \<mapsto> ''false'',
       ''HEALTH_PEM'' \<mapsto> ''false''])
      \<lparr>dt_year = 2024, dt_month = 1, dt_day = 15, dt_hour = 23, dt_minute = 30, dt_second = 0\<rparr>
      (\<lparr>client_id = [], client_secret = [], access_token = JNull, refresh_token = JNull,
        clock_date = ''2024-01-15'', get_script = (Response 200 None (Some (JObj [(''steps'',
             JArr [JObj [(''dateTime'', JStr ''2024-01-15''), (''value'', JStr ''6000'')]])])) # replicate 22 RequestException), post_script = [], trace = []\<rparr>)
      (\<lparr>connect_raises = False, write_raises = True, write_calls = [], stored = [],
        write_errors = 0, closed = False\<rparr>)"
  have st: "fst ?run = Ret (Completed 1)"
    by code_simp
  then have run: "?run = (Ret (Completed 1), fst (snd ?run), snd (snd ?run))"
    by (simp add: prod_eq_iff)
  from batch_written_at_most_once [OF run, where b = True, THEN conjunct2, THEN conjunct1, THEN spec, THEN mp, OF refl]
  have "length (write_calls (snd (snd ?run))) = 1 \<and> write_errors (snd (snd ?run)) = 1"
    by auto
  with st show ?thesis by simp
qed

text \<open>
  C10 as stated (the batch is handed to the sink exactly once in every run) fails for a
  run that collects nothing: with \<^verbatim>\<open>long_covid\<close> and \<^verbatim>\<open>pem\<close> disabled and every
  request failing, the batch is empty, \<^verbatim>\<open>if all_points\<close> skips the write, and the sink
  is never called.
\<close>

theorem batch_written_at_most_once_counterexample:
  "fst (main ([''FITBIT_CLIENT_ID'' \<mapsto> ''id'', ''FITBIT_CLIENT_SECRET'' \<mapsto> ''secret'',
       ''FITBIT_ACCESS_TOKEN'' \<mapsto> ''access'', ''FITBIT_REFRESH_TOKEN'' \<mapsto> ''refresh'',
       ''INFLUX_TOKEN'' \<mapsto> ''token'', ''HEALTH_LONG_COVID'' \<mapsto> ''false'',
       ''HEALTH_PEM'' \<mapsto> ''false'']) ([''FITBIT_CLIENT_ID'' \<mapsto> ''id'', ''FITBIT_CLIENT_SECRET'' \<mapsto> ''secret'',
       ''FITBIT_ACCESS_TOKEN'' \<mapsto> ''access'', ''FITBIT_REFRESH_TOKEN'' \<mapsto> ''refresh'',
       ''INFLUX_TOKEN'' \<mapsto> ''token'', ''HEALTH_LONG_COVID'' \<mapsto> ''false'',
       ''HEALTH_PEM'' \<mapsto> ''false''])
      \<lparr>dt_year = 2024, dt_month = 1, dt_day = 15, dt_hour = 23, dt_minute = 30, dt_second = 0\<rparr>
      (\<lparr>client_id = [], client_secret = [], access_token = JNull, refresh_token = JNull,
        clock_date = ''2024-01-15'', get_script = (replicate 23 RequestException), post_script = [], trace = []\<rparr>)
      (\<lparr>connect_raises = False, write_raises = False, write_calls = [], stored = [],
        write_errors = 0, closed = False\<rparr>)) = Ret NoData \<and>
   write_calls (snd (snd (main ([''FITBIT_CLIENT_ID'' \<mapsto> ''id'', ''FITBIT_CLIENT_SECRET'' \<mapsto> ''secret'',
       ''FITBIT_ACCESS_TOKEN'' \<mapsto> ''access'', ''FITBIT_REFRESH_TOKEN'' \<mapsto> ''refresh'',
       ''INFLUX_TOKEN'' \<mapsto> ''token'', ''HEALTH_LONG_COVID'' \<mapsto> ''false'',
       ''HEALTH_PEM'' \<mapsto> ''false'']) ([''FITBIT_CLIENT_ID'' \<mapsto> ''id'', ''FITBIT_CLIENT_SECRET'' \<mapsto> ''secret'',
       ''FITBIT_ACCESS_TOKEN'' \<mapsto> ''access'', ''FITBIT_REFRESH_TOKEN'' \<mapsto> ''refresh'',
       ''INFLUX_TOKEN'' \<mapsto> ''token'', ''HEALTH_LONG_COVID'' \<mapsto> ''false'',
       ''HEALTH_PEM'' \<mapsto> ''false''])
      \<lparr>dt_year = 2024, dt_month = 1, dt_day = 15, dt_hour = 23, dt_minute = 30, dt_second = 0\<rparr>
      (\<lparr>client_id = [], client_secret = [], access_token = JNull, refresh_token = JNull,
        clock_date = ''2024-01-15'', get_script = (replicate 23 RequestException), post_script = [], trace = []\<rparr>)
      (\<lparr>connect_raises = False, write_raises = False, write_calls = [], stored = [],
        write_errors = 0, closed = False\<rparr>)))) = []"
  by code_simp

end
